theory Spec2Isabelle
  imports Complex_Main "HOL-Library.Sublist"
begin

section \<open>JavaScript strings and collections\<close>

text \<open>
  A JavaScript string is modelled as a HOL \<open>string\<close>: one \<open>char\<close> stands for one code
  unit below 256, and \<open>length\<close> is the source's \<open>.length\<close>.  Strings with other
  code units are outside the model.
\<close>

text \<open>\<open>s.includes(sub)\<close>: \<open>sub\<close> occurs in \<open>s\<close> as a contiguous substring.\<close>

fun str_includes :: "string \<Rightarrow> string \<Rightarrow> bool" where
  "str_includes [] sub = (sub = [])"
| "str_includes (c # cs) sub = (prefix sub (c # cs) \<or> str_includes cs sub)"

text \<open>\<open>s.startsWith(p)\<close>.\<close>

definition startsWith :: "string \<Rightarrow> string \<Rightarrow> bool" where
  "startsWith s p = prefix p s"

text \<open>
  \<open>s.replace(pat, rep)\<close> with a string pattern: only the first occurrence of
  \<open>pat\<close> is replaced (an empty pattern matches at position 0).
\<close>

fun replace_first :: "string \<Rightarrow> string \<Rightarrow> string \<Rightarrow> string" where
  "replace_first pat rep [] = (if pat = [] then rep else [])"
| "replace_first pat rep (c # cs) =
     (if prefix pat (c # cs) then rep @ drop (length pat) (c # cs)
      else c # replace_first pat rep cs)"

text \<open>\<open>s.replace(/_/g, " ")\<close>: every underscore becomes a space.\<close>

definition underscores_to_spaces :: "string \<Rightarrow> string" where
  "underscores_to_spaces s = map (\<lambda>c. if c = CHR ''_'' then CHR '' '' else c) s"

text \<open>\<open>xs.join(sep)\<close>.\<close>

fun join :: "string \<Rightarrow> string list \<Rightarrow> string" where
  "join sep [] = []"
| "join sep [x] = x"
| "join sep (x # y # ys) = x @ sep @ join sep (y # ys)"

text \<open>
  \<open>s.toLowerCase()\<close> on code units below 256: the letters A to Z and the capital
  letters of Latin-1 (0xC0 to 0xDE without the multiplication sign 0xD7).
\<close>

definition latin1_upper :: string where
  "latin1_upper =
     [CHR 0xC0, CHR 0xC1, CHR 0xC2, CHR 0xC3, CHR 0xC4, CHR 0xC5, CHR 0xC6, CHR 0xC7,
      CHR 0xC8, CHR 0xC9, CHR 0xCA, CHR 0xCB, CHR 0xCC, CHR 0xCD, CHR 0xCE, CHR 0xCF,
      CHR 0xD0, CHR 0xD1, CHR 0xD2, CHR 0xD3, CHR 0xD4, CHR 0xD5, CHR 0xD6, CHR 0xD8,
      CHR 0xD9, CHR 0xDA, CHR 0xDB, CHR 0xDC, CHR 0xDD, CHR 0xDE]"

definition latin1_lower :: string where
  "latin1_lower =
     [CHR 0xE0, CHR 0xE1, CHR 0xE2, CHR 0xE3, CHR 0xE4, CHR 0xE5, CHR 0xE6, CHR 0xE7,
      CHR 0xE8, CHR 0xE9, CHR 0xEA, CHR 0xEB, CHR 0xEC, CHR 0xED, CHR 0xEE, CHR 0xEF,
      CHR 0xF0, CHR 0xF1, CHR 0xF2, CHR 0xF3, CHR 0xF4, CHR 0xF5, CHR 0xF6, CHR 0xF8,
      CHR 0xF9, CHR 0xFA, CHR 0xFB, CHR 0xFC, CHR 0xFD, CHR 0xFE]"

definition lower_char :: "char \<Rightarrow> char" where
  "lower_char c =
     (case map_of (zip (''ABCDEFGHIJKLMNOPQRSTUVWXYZ'' @ latin1_upper)
                       (''abcdefghijklmnopqrstuvwxyz'' @ latin1_lower)) c of
        Some l \<Rightarrow> l | None \<Rightarrow> c)"

definition toLowerCase :: "string \<Rightarrow> string" where
  "toLowerCase s = map lower_char s"

text \<open>Decimal rendering of an integer, as a template literal interpolates it.\<close>

fun digits_of :: "nat \<Rightarrow> string" where
  "digits_of n =
     (if n < 10 then [''0123456789'' ! n]
      else digits_of (n div 10) @ [''0123456789'' ! (n mod 10)])"

definition show_int :: "int \<Rightarrow> string" where
  "show_int i = (if i < 0 then CHR ''-'' # digits_of (nat (- i)) else digits_of (nat i))"

text \<open>
  \<open>new Set(xs)\<close> adds the elements in order and keeps the first occurrence of each;
  \<open>[...set]\<close> lists them in insertion order.
\<close>

definition set_add :: "'a list \<Rightarrow> 'a \<Rightarrow> 'a list" where
  "set_add seen x = (if x \<in> set seen then seen else seen @ [x])"

definition new_Set :: "'a list \<Rightarrow> 'a list" where
  "new_Set xs = foldl set_add [] xs"

text \<open>
  A loop that stops at the first element on which its body aborts: \<open>f\<close> gives the
  abort of an element, if any.
\<close>

fun first_some :: "('a \<Rightarrow> 'b option) \<Rightarrow> 'a list \<Rightarrow> 'b option" where
  "first_some f [] = None"
| "first_some f (x # xs) = (case f x of Some y \<Rightarrow> Some y | None \<Rightarrow> first_some f xs)"

text \<open>\<open>xs.flatMap(f)\<close>.\<close>

definition flatMap :: "('a \<Rightarrow> 'b list) \<Rightarrow> 'a list \<Rightarrow> 'b list" where
  "flatMap f xs = concat (map f xs)"

text \<open>
  \<open>Math.min(...xs)\<close> and \<open>Math.max(...xs)\<close> of a non-empty argument list, given as
  its first element and the rest.
\<close>

definition Math_min :: "int \<Rightarrow> int list \<Rightarrow> int" where
  "Math_min x xs = fold min xs x"

definition Math_max :: "int \<Rightarrow> int list \<Rightarrow> int" where
  "Math_max x xs = fold max xs x"

section \<open>The mandate (schema.ts)\<close>

datatype permission = Read | Write

record DataAccessRule =
  scope :: string
  permissions :: "permission list"
  file_types :: "string list option"
  databases :: "string list option"

datatype disclaimer_trigger =
  Always | On_document_generation | On_legal_claim | On_claim | Custom

datatype placement = Start | End | Both

record DisclaimerRule =
  trigger :: disclaimer_trigger
  dtext :: string
  placement :: placement
  custom_pattern :: "string option"

datatype citation_format = Inline | Footnote | EndNotes

record CitationRequirements =
  required :: bool
  format :: citation_format
  min_per_claim :: int
  allowed_sources :: "string list"
  blocked_sources :: "string list"

record HumanReviewConfig =
  required_before :: "string list"
  review_prompt :: string

datatype log_level = Full | Actions_only | Errors_only

record AuditConfig =
  log_level :: log_level
  include_llm_calls :: bool
  include_tool_calls :: bool
  retention_days :: int

datatype escalation_action =
  Warn_user | Refuse_and_redirect | Provide_resources | Disclose_and_defer | Refuse

record EscalationTrigger =
  condition :: string
  threshold :: "real option"
  topics :: "string list option"
  action :: escalation_action
  message :: string
  resources :: "string list option"

datatype unsupported_behavior = Escalate | RefuseScope | Warn_and_attempt

record ScopeConfig =
  allowed :: "string list"
  behavior_on_unsupported :: unsupported_behavior
  escalation_message :: string

record MandateLimits =
  max_tokens_per_turn :: int
  max_tool_calls_per_turn :: int
  max_turns_per_session :: int
  max_concurrent_sessions :: int
  token_budget_daily :: int
  timeout_seconds :: int

record Metadata =
  name :: string
  description :: string
  author :: string
  created :: string
  tags :: "string list"
  skill_packs :: "string list option"

record Capabilities =
  tools :: "string list"
  data_access :: "DataAccessRule list"
  output_types :: "string list"

record Prohibitions =
  ptools :: "string list"
  actions :: "string list"
  pdata :: "string list"

record Requirements =
  disclaimers :: "DisclaimerRule list"
  citations :: CitationRequirements
  human_review :: HumanReviewConfig
  audit :: AuditConfig

record Escalation =
  triggers :: "EscalationTrigger list"

record Mandate =
  version :: string
  metadata :: Metadata
  capabilities :: Capabilities
  prohibitions :: Prohibitions
  requirements :: Requirements
  mscope :: ScopeConfig
  escalation :: Escalation
  limits :: MandateLimits

section \<open>Tool resolution (tool-filter.ts)\<close>

text \<open>
  A tool object: its optional \<open>id\<close> property and the rest of the object.  The record
  \<open>allTools\<close> is the list of its entries, in the order \<open>Object.entries\<close> yields them.
\<close>

record 'a Tool =
  tool_id :: "string option"
  tool_body :: 'a

text \<open>\<open>tool.id || key\<close>: a missing or empty id falls back to the key.\<close>

definition toolId :: "string \<times> 'a Tool \<Rightarrow> string" where
  "toolId e = (case tool_id (snd e) of None \<Rightarrow> fst e
               | Some i \<Rightarrow> if i = [] then fst e else i)"

definition is_wildcard :: "string \<Rightarrow> bool" where
  "is_wildcard t = str_includes t ''*''"

definition prohibitedExact :: "Mandate \<Rightarrow> string list" where
  "prohibitedExact mandate = new_Set (filter (\<lambda>t. \<not> is_wildcard t) (ptools (prohibitions mandate)))"

definition wildcard_prefix :: "string \<Rightarrow> string" where
  "wildcard_prefix t = replace_first ''*'' [] (replace_first ''-*'' [] t)"

definition prohibitedPrefixes :: "Mandate \<Rightarrow> string list" where
  "prohibitedPrefixes mandate =
     map wildcard_prefix (filter is_wildcard (ptools (prohibitions mandate)))"

definition tool_allowed :: "Mandate \<Rightarrow> string \<Rightarrow> bool" where
  "tool_allowed mandate tid =
     (tid \<in> set (new_Set (tools (capabilities mandate)))
      \<and> tid \<notin> set (prohibitedExact mandate)
      \<and> \<not> list_ex (\<lambda>p. startsWith tid p) (prohibitedPrefixes mandate))"

definition filterToolsByMandate ::
  "(string \<times> 'a Tool) list \<Rightarrow> Mandate \<Rightarrow> (string \<times> 'a Tool) list" where
  "filterToolsByMandate allTools mandate =
     filter (\<lambda>e. tool_allowed mandate (toolId e)) allTools"

section \<open>Composition (composer.ts)\<close>

text \<open>Disclaimers are deduplicated by their text; the first of each text is kept.\<close>

fun dedupe_disclaimers :: "string list \<Rightarrow> DisclaimerRule list \<Rightarrow> DisclaimerRule list" where
  "dedupe_disclaimers seen [] = []"
| "dedupe_disclaimers seen (d # ds) =
     (if dtext d \<in> set seen then dedupe_disclaimers seen ds
      else d # dedupe_disclaimers (seen @ [dtext d]) ds)"

definition intersect_all :: "('m \<Rightarrow> string list) \<Rightarrow> 'm \<Rightarrow> 'm list \<Rightarrow> string list" where
  "intersect_all f base mandates =
     filter (\<lambda>x. list_all (\<lambda>m. x \<in> set (new_Set (f m))) mandates) (new_Set (f base))"

text \<open>
  The body of \<open>composeMandates\<close> for two or more mandates; \<open>base\<close> is \<open>mandates[0]\<close>
  and \<open>nowISO\<close> is what \<open>new Date().toISOString()\<close> returns at the call.
\<close>

definition compose_many :: "string \<Rightarrow> Mandate \<Rightarrow> Mandate list \<Rightarrow> Mandate" where
  "compose_many nowISO base rest =
    (let mandates = base # rest;
         least = (\<lambda>f. Math_min (f (limits base)) (map (\<lambda>m. f (limits m)) rest))
     in \<lparr> version = version base,
          metadata = \<lparr>
            name = ''composed-'' @ join ''-'' (map (\<lambda>m. name (metadata m)) mandates),
            description = ''Composed mandate from: '' @ join '', '' (map (\<lambda>m. name (metadata m)) mandates),
            author = ''system'',
            created = takeWhile (\<lambda>c. c \<noteq> CHR ''T'') nowISO,
            tags = new_Set (flatMap (\<lambda>m. tags (metadata m)) mandates),
            skill_packs = Some (new_Set (flatMap
              (\<lambda>m. case skill_packs (metadata m) of None \<Rightarrow> [] | Some ps \<Rightarrow> ps) mandates)) \<rparr>,
          capabilities = \<lparr>
            tools = intersect_all (\<lambda>m. tools (capabilities m)) base mandates,
            data_access = data_access (capabilities base),
            output_types = new_Set (flatMap (\<lambda>m. output_types (capabilities m)) mandates) \<rparr>,
          prohibitions = \<lparr>
            ptools = new_Set (flatMap (\<lambda>m. ptools (prohibitions m)) mandates),
            actions = new_Set (flatMap (\<lambda>m. actions (prohibitions m)) mandates),
            pdata = new_Set (flatMap (\<lambda>m. pdata (prohibitions m)) mandates) \<rparr>,
          requirements = \<lparr>
            disclaimers = dedupe_disclaimers [] (flatMap (\<lambda>m. disclaimers (requirements m)) mandates),
            citations = citations (requirements base),
            human_review = human_review (requirements base),
            audit = \<lparr>
              log_level = Full,
              include_llm_calls = True,
              include_tool_calls = True,
              retention_days = Math_max (retention_days (audit (requirements base)))
                 (map (\<lambda>m. retention_days (audit (requirements m))) rest) \<rparr> \<rparr>,
          mscope = \<lparr>
            allowed = intersect_all (\<lambda>m. allowed (mscope m)) base mandates,
            behavior_on_unsupported = Escalate,
            escalation_message = escalation_message (mscope base) \<rparr>,
          escalation = \<lparr> triggers = flatMap (\<lambda>m. triggers (escalation m)) mandates \<rparr>,
          limits = \<lparr>
            max_tokens_per_turn = least max_tokens_per_turn,
            max_tool_calls_per_turn = least max_tool_calls_per_turn,
            max_turns_per_session = least max_turns_per_session,
            max_concurrent_sessions = least max_concurrent_sessions,
            token_budget_daily = least token_budget_daily,
            timeout_seconds = least timeout_seconds \<rparr> \<rparr>)"

text \<open>\<open>composeMandates\<close>: the thrown \<open>Error\<close> is the left injection, with its message.\<close>

fun composeMandates :: "string \<Rightarrow> Mandate list \<Rightarrow> string + Mandate" where
  "composeMandates nowISO [] = Inl ''Cannot compose zero mandates''"
| "composeMandates nowISO [m] = Inr m"
| "composeMandates nowISO (base # m # ms) = Inr (compose_many nowISO base (m # ms))"

text \<open>
  Object identity: a mandate object is a pair of its address and its value.  The single
  input is returned as it is; the composed mandate is a fresh object literal, at the
  address \<open>fresh\<close> the allocator hands out.
\<close>

fun composeMandates_obj ::
  "string \<Rightarrow> nat \<Rightarrow> (nat \<times> Mandate) list \<Rightarrow> string + (nat \<times> Mandate)" where
  "composeMandates_obj nowISO fresh [] = Inl ''Cannot compose zero mandates''"
| "composeMandates_obj nowISO fresh [obj] = Inr obj"
| "composeMandates_obj nowISO fresh (b # m # ms) =
     Inr (fresh, compose_many nowISO (snd b) (map snd (m # ms)))"

section \<open>Messages, stage results and maps\<close>

text \<open>
  A JSON value; an object is the list of its entries in enumeration order.  The content
  of a message is such a value: a string, or anything else, which the stages serialise
  with \<open>JSON.stringify\<close>.  That function belongs to the runtime and is a parameter
  \<open>stringify\<close> of the stages that call it.
\<close>

datatype json =
  JNull | JBool bool | JNum real | JStr string | JArr "json list" | JObj "(string \<times> json) list"

record Message =
  role :: string
  content :: json

definition text_of :: "(json \<Rightarrow> string) \<Rightarrow> Message \<Rightarrow> string" where
  "text_of stringify m = (case content m of JStr s \<Rightarrow> s | c \<Rightarrow> stringify c)"

text \<open>
  What a stage does with the messages: it returns them, possibly changed, or it calls
  \<open>abort(reason, {retry})\<close>, which ends the stage with the reason and the retry flag
  (a call without options is a hard abort).
\<close>

datatype stage_result = Continue "Message list" | Abort string bool

text \<open>\<open>xs.findLast(p)\<close> and \<open>xs.findLastIndex(p)\<close>.\<close>

definition findLast :: "('a \<Rightarrow> bool) \<Rightarrow> 'a list \<Rightarrow> 'a option" where
  "findLast p xs = find p (rev xs)"

definition findLastIndex :: "('a \<Rightarrow> bool) \<Rightarrow> 'a list \<Rightarrow> nat option" where
  "findLastIndex p xs = find (\<lambda>i. p (xs ! i)) (rev [0..<length xs])"

text \<open>
  A JavaScript \<open>Map\<close>: the list of its entries in insertion order.  \<open>set\<close> on a key
  that is present replaces the value where the entry stands.
\<close>

definition map_has :: "'k \<Rightarrow> ('k \<times> 'v) list \<Rightarrow> bool" where
  "map_has k m = (k \<in> fst ` set m)"

definition map_get :: "'k \<Rightarrow> ('k \<times> 'v) list \<Rightarrow> 'v option" where
  "map_get k m = map_of m k"

definition map_set :: "'k \<Rightarrow> 'v \<Rightarrow> ('k \<times> 'v) list \<Rightarrow> ('k \<times> 'v) list" where
  "map_set k v m =
     (if map_has k m then map (\<lambda>e. if fst e = k then (k, v) else e) m else m @ [(k, v)])"

definition map_delete :: "'k \<Rightarrow> ('k \<times> 'v) list \<Rightarrow> ('k \<times> 'v) list" where
  "map_delete k m = filter (\<lambda>e. fst e \<noteq> k) m"

section \<open>The Limits stage (limits.processor.ts)\<close>

record Session =
  turns :: int
  startedAt :: int

text \<open>The module's globals.\<close>

record LimitsState =
  activeSessions :: "(string \<times> Session) list"
  dailyTokensUsed :: int
  lastResetDate :: string

text \<open>The processor state object the runtime passes in: the two properties the stage uses.\<close>

record ProcState =
  sessionId :: "string option"
  turnStartTime :: "int option"

text \<open>
  The clock readings of one \<open>processInput\<close> call, in the order the code takes them:
  \<open>new Date().toDateString()\<close>, then \<open>Date.now()\<close> when a session is created, when the
  timeout is checked and when the turn start is stored.
\<close>

record InputClock =
  today :: string
  now_created :: int
  now_checked :: int
  now_turn :: int

definition resetDailyIfNeeded :: "string \<Rightarrow> LimitsState \<Rightarrow> LimitsState" where
  "resetDailyIfNeeded date g =
     (if date \<noteq> lastResetDate g then g\<lparr>dailyTokensUsed := 0, lastResetDate := date\<rparr> else g)"

text \<open>\<open>state.__sessionId || "default"\<close>.\<close>

definition session_of :: "ProcState \<Rightarrow> string" where
  "session_of st = (case sessionId st of None \<Rightarrow> ''default''
                    | Some i \<Rightarrow> if i = [] then ''default'' else i)"

definition session_limit_message :: "MandateLimits \<Rightarrow> string" where
  "session_limit_message lims =
     ''Session limit reached ('' @ show_int (max_turns_per_session lims) @ '' turns). ''
       @ ''Please start a new conversation.''"

definition limits_processInput ::
  "MandateLimits \<Rightarrow> InputClock \<Rightarrow> ProcState \<Rightarrow> LimitsState \<Rightarrow> Message list
     \<Rightarrow> stage_result \<times> LimitsState \<times> ProcState" where
  "limits_processInput lims clock st g0 messages =
    (let g = resetDailyIfNeeded (today clock) g0;
         sid = session_of st
     in if \<not> map_has sid (activeSessions g)
           \<and> int (length (activeSessions g)) \<ge> max_concurrent_sessions lims
        then (Abort ''Maximum concurrent sessions reached. Please try again later.'' False, g, st)
        else
          let created = (if \<not> map_has sid (activeSessions g)
                 then map_set sid \<lparr>turns = 0, startedAt = now_created clock\<rparr> (activeSessions g)
                 else activeSessions g)
          in case map_get sid created of
               None \<Rightarrow> (Continue messages, g, st)
             | Some s0 \<Rightarrow>
                 let session = s0\<lparr>turns := turns s0 + 1\<rparr>;
                     sessions = map_set sid session created
                 in if turns session > max_turns_per_session lims
                    then (Abort (session_limit_message lims) False,
                          g\<lparr>activeSessions := map_delete sid sessions\<rparr>, st)
                    else if real_of_int (now_checked clock - startedAt session) / 1000
                              > real_of_int (timeout_seconds lims)
                    then (Abort ''Session has timed out. Please start a new conversation.'' False,
                          g\<lparr>activeSessions := map_delete sid sessions\<rparr>, st)
                    else if token_budget_daily lims \<noteq> 0
                            \<and> dailyTokensUsed g \<ge> token_budget_daily lims
                    then (Abort ''Daily token budget has been exhausted. Service will resume tomorrow.'' False,
                          g\<lparr>activeSessions := sessions\<rparr>, st)
                    else (Continue messages, g\<lparr>activeSessions := sessions\<rparr>,
                          st\<lparr>sessionId := Some sid, turnStartTime := Some (now_turn clock)\<rparr>))"

text \<open>\<open>Math.ceil(text.length / 4)\<close>.\<close>

definition estimatedTokens :: "string \<Rightarrow> int" where
  "estimatedTokens txt = \<lceil>real (length txt) / 4\<rceil>"

text \<open>
  The truncation notice.  Its dash is U+2014, written here as the three bytes of its
  UTF-8 encoding.
\<close>

definition truncation_marker :: string where
  "truncation_marker =
     ''\<newline>\<newline>---\<newline>_[Response truncated '' @ [CHR 0xE2, CHR 0x80, CHR 0x94]
       @ '' exceeded maximum length for this mandate]_''"

text \<open>\<open>text.substring(0, n)\<close>: a negative \<open>n\<close> counts as 0.\<close>

definition substring0 :: "int \<Rightarrow> string \<Rightarrow> string" where
  "substring0 n s = take (nat n) s"

definition is_assistant :: "Message \<Rightarrow> bool" where
  "is_assistant m = (role m = ''assistant'')"

definition is_user :: "Message \<Rightarrow> bool" where
  "is_user m = (role m = ''user'')"

definition limits_processOutputResult ::
  "MandateLimits \<Rightarrow> (json \<Rightarrow> string) \<Rightarrow> string \<Rightarrow> LimitsState \<Rightarrow> Message list
     \<Rightarrow> stage_result \<times> LimitsState" where
  "limits_processOutputResult lims stringify date g0 messages =
    (let g = resetDailyIfNeeded date g0
     in case findLast is_assistant messages of
          None \<Rightarrow> (Continue messages, g)
        | Some lastAssistantMsg \<Rightarrow>
            let txt = text_of stringify lastAssistantMsg;
                est = estimatedTokens txt
            in if est > max_tokens_per_turn lims
               then
                 let maxChars = max_tokens_per_turn lims * 4;
                     truncated = substring0 maxChars txt @ truncation_marker;
                     updated = (case findLastIndex is_assistant messages of
                          None \<Rightarrow> messages
                        | Some idx \<Rightarrow> messages[idx := (messages ! idx)\<lparr>content := JStr truncated\<rparr>])
                 in (Continue updated, g)
               else (Continue messages, g\<lparr>dailyTokensUsed := dailyTokensUsed g + est\<rparr>))"

section \<open>Regular expressions\<close>

text \<open>
  The regular expressions of the stages, as syntax trees with the matcher that
  \<open>RegExp.prototype.test\<close> computes on them.  The classes are \<open>\d\<close>, \<open>\s\<close>, \<open>\w\<close>,
  \<open>[A-Z]\<close> and \<open>[A-Za-z]\<close> (which is also \<open>[a-z]\<close> under the \<open>i\<close> flag); \<open>LitI\<close> is a
  literal under the \<open>i\<close> flag.
\<close>

datatype cls = Digit | Space | WordChar | Upper | Alpha

definition in_range :: "char \<Rightarrow> char \<Rightarrow> char \<Rightarrow> bool" where
  "in_range lo hi c = ((of_char lo :: nat) \<le> of_char c \<and> (of_char c :: nat) \<le> of_char hi)"

fun in_class :: "cls \<Rightarrow> char \<Rightarrow> bool" where
  "in_class Digit c = in_range CHR ''0'' CHR ''9'' c"
| "in_class Space c =
     (c \<in> set [CHR '' '', CHR 0x09, CHR 0x0A, CHR 0x0B, CHR 0x0C, CHR 0x0D, CHR 0xA0])"
| "in_class Upper c = in_range CHR ''A'' CHR ''Z'' c"
| "in_class Alpha c = (in_range CHR ''A'' CHR ''Z'' c \<or> in_range CHR ''a'' CHR ''z'' c)"
| "in_class WordChar c =
     (in_range CHR ''A'' CHR ''Z'' c \<or> in_range CHR ''a'' CHR ''z'' c
      \<or> in_range CHR ''0'' CHR ''9'' c \<or> c = CHR ''_'')"

datatype re =
  Eps | Lit char | LitI char | Class cls | NotClass cls | WordB | Bol | Eol
  | Seq re re | Alt re re | Opt re | Star re

text \<open>
  A matcher state is the character before the current position, if any, and the rest of
  the input; \<open>rmatch r st\<close> lists the states in which a match of \<open>r\<close> from \<open>st\<close> can
  end.  An iteration of \<open>Star\<close> that consumes nothing adds no state and is dropped.
\<close>

type_synonym mstate = "char option \<times> string"

definition is_word_at :: "char option \<Rightarrow> bool" where
  "is_word_at c = (case c of None \<Rightarrow> False | Some x \<Rightarrow> in_class WordChar x)"

definition next_char :: "string \<Rightarrow> char option" where
  "next_char s = (case s of [] \<Rightarrow> None | x # xs \<Rightarrow> Some x)"

definition eat :: "(char \<Rightarrow> bool) \<Rightarrow> mstate \<Rightarrow> mstate list" where
  "eat p st = (case snd st of [] \<Rightarrow> [] | x # xs \<Rightarrow> if p x then [(Some x, xs)] else [])"

function (sequential) rmatch :: "re \<Rightarrow> mstate \<Rightarrow> mstate list" where
  "rmatch Eps st = [st]"
| "rmatch (Lit c) st = eat (\<lambda>x. x = c) st"
| "rmatch (LitI c) st = eat (\<lambda>x. lower_char x = lower_char c) st"
| "rmatch (Class k) st = eat (in_class k) st"
| "rmatch (NotClass k) st = eat (\<lambda>x. \<not> in_class k x) st"
| "rmatch WordB st =
     (if is_word_at (fst st) \<noteq> is_word_at (next_char (snd st)) then [st] else [])"
| "rmatch Bol st = (if fst st = None then [st] else [])"
| "rmatch Eol st = (if snd st = [] then [st] else [])"
| "rmatch (Seq a b) st = concat (map (rmatch b) (rmatch a st))"
| "rmatch (Alt a b) st = rmatch a st @ rmatch b st"
| "rmatch (Opt a) st = st # rmatch a st"
| "rmatch (Star a) st =
     st # concat (map (rmatch (Star a))
                    (filter (\<lambda>st'. length (snd st') < length (snd st)) (rmatch a st)))"
  by pat_completeness auto
termination
  by (relation "measures [\<lambda>(r, st). size r, \<lambda>(r, st). length (snd st)]") auto

text \<open>\<open>r.test(s)\<close>: a match may start at any position.\<close>

fun search :: "re \<Rightarrow> char option \<Rightarrow> string \<Rightarrow> bool" where
  "search r prev [] = (rmatch r (prev, []) \<noteq> [])"
| "search r prev (c # cs) = (rmatch r (prev, c # cs) \<noteq> [] \<or> search r (Some c) cs)"

definition re_test :: "re \<Rightarrow> string \<Rightarrow> bool" where
  "re_test r s = search r None s"

fun lits :: "string \<Rightarrow> re" where
  "lits [] = Eps"
| "lits (c # cs) = Seq (Lit c) (lits cs)"

fun litsI :: "string \<Rightarrow> re" where
  "litsI [] = Eps"
| "litsI (c # cs) = Seq (LitI c) (litsI cs)"

definition Plus :: "re \<Rightarrow> re" where
  "Plus r = Seq r (Star r)"

fun seqs :: "re list \<Rightarrow> re" where
  "seqs [] = Eps"
| "seqs (r # rs) = Seq r (seqs rs)"

fun alts :: "re list \<Rightarrow> re" where
  "alts [] = Eps"
| "alts [r] = r"
| "alts (r # rs) = Alt r (alts rs)"

text \<open>\<open>/\bword\b/i\<close>.\<close>

definition wordI :: "string \<Rightarrow> re" where
  "wordI w = seqs [WordB, litsI w, WordB]"

section \<open>Plain objects\<close>

text \<open>
  A plain object used as a lookup table is the list of its own properties.  A read
  \<open>obj[key]\<close> of a key that is not an own property finds the member of
  \<open>Object.prototype\<close> of that name, if there is one: a function, or for \<open>__proto__\<close> the
  prototype object itself.  Such a value is truthy and is not an array.
\<close>

definition object_prototype_members :: "string list" where
  "object_prototype_members =
     [''constructor'', ''__defineGetter__'', ''__defineSetter__'', ''hasOwnProperty'',
      ''__lookupGetter__'', ''__lookupSetter__'', ''isPrototypeOf'', ''propertyIsEnumerable'',
      ''toString'', ''valueOf'', ''__proto__'', ''toLocaleString'']"

text \<open>
  The string that such an inherited value converts to: \<open>constructor\<close> is the function
  \<open>Object\<close>, \<open>__proto__\<close> is an object, the others are functions of their own name.
\<close>

definition inherited_text :: "string \<Rightarrow> string" where
  "inherited_text n =
     (if n = ''__proto__'' then ''[object Object]''
      else ''function '' @ (if n = ''constructor'' then ''Object'' else n)
             @ ''() { [native code] }'')"

section \<open>The Tool Gate stage (tool-gate.processor.ts)\<close>

record ToolCall =
  toolName :: "string option"
  tname :: "string option"
  args :: "json option"

text \<open>An argument of \<open>auditLogger.log\<close>.\<close>

record AuditLog =
  a_check :: string
  a_result :: string
  a_detail :: string

text \<open>\<open>toolCall.toolName || toolCall.name\<close>; \<open>undefined\<close> is \<open>None\<close>.\<close>

definition call_name :: "ToolCall \<Rightarrow> string option" where
  "call_name tc = (case toolName tc of None \<Rightarrow> tname tc
                   | Some n \<Rightarrow> if n = [] then tname tc else Some n)"

text \<open>A value interpolated into a template literal.\<close>

definition show_name :: "string option \<Rightarrow> string" where
  "show_name n = (case n of None \<Rightarrow> ''undefined'' | Some s \<Rightarrow> s)"

text \<open>\<open>toolCall.args || {}\<close>: a missing or falsy value gives the empty object.\<close>

definition falsy :: "json \<Rightarrow> bool" where
  "falsy j = (j = JNull \<or> j = JBool False \<or> j = JNum 0 \<or> j = JStr [])"

definition args_or_empty :: "json option \<Rightarrow> json" where
  "args_or_empty a = (case a of None \<Rightarrow> JObj [] | Some j \<Rightarrow> if falsy j then JObj [] else j)"

definition dataKeywords :: "(string \<times> string list) list" where
  "dataKeywords =
     [(''financial_accounts'', [''bank_account'', ''credit_card'', ''routing_number'', ''account_number'']),
      (''medical_records'', [''medical'', ''diagnosis'', ''prescription'', ''health_record'']),
      (''national_insurance_numbers'', [''national insurance'', ''ni number'', ''nino'']),
      (''social_security_numbers'', [''social security'', ''ssn'']),
      (''credentials_and_passwords'', [''password'', ''api_key'', ''secret'', ''token'', ''credential''])]"

text \<open>
  \<open>dataKeywords[category] || [category.replace(/_/g, " ")]\<close>: the own entry, else the
  label; \<open>None\<close> when the read finds an inherited member instead, on which
  \<open>keywords.find\<close> is not a function.
\<close>

definition category_keywords :: "string \<Rightarrow> string list option" where
  "category_keywords category =
     (case map_of dataKeywords category of
        Some kws \<Rightarrow> Some kws
      | None \<Rightarrow> if category \<in> set object_prototype_members then None
                else Some [underscores_to_spaces category])"

text \<open>
  Check 4 of one call: the first prohibited category with a keyword in the serialised
  arguments, or the \<open>TypeError\<close> raised on the way.  \<open>if (match)\<close> and
  \<open>if (wildcardMatch)\<close> do not hold for an empty string.
\<close>

datatype data_hit = NoHit | Hit string string | NotAFunction

fun data_check :: "string \<Rightarrow> string list \<Rightarrow> data_hit" where
  "data_check argsString [] = NoHit"
| "data_check argsString (category # cs) =
     (case category_keywords category of
        None \<Rightarrow> NotAFunction
      | Some keywords \<Rightarrow>
          (case find (\<lambda>kw. str_includes argsString (toLowerCase kw)) keywords of
             Some kw \<Rightarrow> if kw \<noteq> [] then Hit category kw else data_check argsString cs
           | None \<Rightarrow> data_check argsString cs))"

text \<open>
  What the checks on one tool call end in: the call passes, the stage aborts with a
  reason and a retry flag, or a \<open>TypeError\<close> is thrown.
\<close>

datatype call_outcome = Passed | Aborted string bool | Threw string

definition tool_gate_call ::
  "Mandate \<Rightarrow> (json \<Rightarrow> string) \<Rightarrow> nat \<Rightarrow> ToolCall \<Rightarrow> AuditLog list \<times> call_outcome" where
  "tool_gate_call mandate stringify retryCount toolCall =
    (let allowedTools = new_Set (tools (capabilities mandate));
         n = call_name toolCall;
         shown = show_name n
     in if \<not> (case n of None \<Rightarrow> False | Some t \<Rightarrow> t \<in> set allowedTools)
        then ([\<lparr>a_check = ''tool_whitelist'', a_result = ''blocked'',
                a_detail = ''Tool \"'' @ shown @ ''\" not in allowed tools''\<rparr>],
              if retryCount < 2
              then Aborted (''Tool \"'' @ shown @ ''\" is not available. Only use: ''
                              @ join '', '' allowedTools) True
              else Aborted ''Unable to complete this request within my operating guidelines.'' False)
        else if shown \<in> set (prohibitedExact mandate)
        then ([\<lparr>a_check = ''tool_prohibition'', a_result = ''blocked'',
                a_detail = ''Tool \"'' @ shown @ ''\" is explicitly prohibited''\<rparr>],
              Aborted (''Tool \"'' @ shown @ ''\" is prohibited by my operating mandate.'') True)
        else
          let wildcardMatch = find (\<lambda>p. startsWith shown p) (prohibitedPrefixes mandate)
          in if wildcardMatch \<noteq> None \<and> wildcardMatch \<noteq> Some []
             then ([\<lparr>a_check = ''tool_prohibition_wildcard'', a_result = ''blocked'',
                     a_detail = ''Tool \"'' @ shown @ ''\" matches wildcard prohibition \"''
                                  @ show_name wildcardMatch @ ''-*\"''\<rparr>],
                   Aborted (''Tool \"'' @ shown @ ''\" is prohibited by my operating mandate.'') True)
             else
               (case data_check (toLowerCase (stringify (args_or_empty (args toolCall))))
                       (pdata (prohibitions mandate)) of
                  Hit category kw \<Rightarrow>
                    ([\<lparr>a_check = ''data_prohibition'', a_result = ''blocked'',
                       a_detail = ''Tool args reference prohibited data category \"'' @ category
                                    @ ''\" (keyword: \"'' @ kw @ ''\")''\<rparr>],
                     Aborted (''I cannot access '' @ underscores_to_spaces category @ '' data.'') True)
                | NotAFunction \<Rightarrow> ([], Threw ''TypeError: keywords.find is not a function'')
                | NoHit \<Rightarrow>
                    ([\<lparr>a_check = ''tool_gate'', a_result = ''allowed'',
                       a_detail = ''Tool \"'' @ shown @ ''\" passed all mandate checks''\<rparr>], Passed)))"

fun tool_gate_loop ::
  "Mandate \<Rightarrow> (json \<Rightarrow> string) \<Rightarrow> nat \<Rightarrow> ToolCall list \<Rightarrow> AuditLog list \<times> call_outcome" where
  "tool_gate_loop mandate stringify retryCount [] = ([], Passed)"
| "tool_gate_loop mandate stringify retryCount (tc # tcs) =
     (let r = tool_gate_call mandate stringify retryCount tc
      in if snd r \<noteq> Passed then r
         else let r' = tool_gate_loop mandate stringify retryCount tcs
              in (fst r @ fst r', snd r'))"

text \<open>
  \<open>processOutputStep\<close>: the stage's result, or on the left the error it throws, and the
  log entries written.
\<close>

definition tool_gate_processOutputStep ::
  "Mandate \<Rightarrow> (json \<Rightarrow> string) \<Rightarrow> nat \<Rightarrow> Message list \<Rightarrow> ToolCall list option
     \<Rightarrow> (string + stage_result) \<times> AuditLog list" where
  "tool_gate_processOutputStep mandate stringify retryCount messages toolCalls =
    (case toolCalls of
       None \<Rightarrow> (Inr (Continue messages), [])
     | Some calls \<Rightarrow>
        if calls = [] then (Inr (Continue messages), [])
        else if int (length calls) > max_tool_calls_per_turn (limits mandate)
        then (Inr (Abort (''Too many tool calls. Maximum is ''
                            @ show_int (max_tool_calls_per_turn (limits mandate)) @ ''.'') True),
              [\<lparr>a_check = ''tool_call_limit'', a_result = ''blocked'',
                a_detail = show_int (int (length calls)) @ '' calls exceeds limit of ''
                             @ show_int (max_tool_calls_per_turn (limits mandate))\<rparr>])
        else
          let r = tool_gate_loop mandate stringify retryCount calls
          in (case snd r of
                Aborted reason retry \<Rightarrow> (Inr (Abort reason retry), fst r)
              | Threw e \<Rightarrow> (Inl e, fst r)
              | Passed \<Rightarrow> (Inr (Continue messages), fst r)))"

text \<open>
  Modelled from the spec: the abort mechanism of the runtime that calls the stages, which
  is not in the repository.  A stage's abort with \<open>retry = true\<close> sends the reason back to
  the generator for another attempt; this is capped by a maximum retry count of 2 that
  does not depend on the policy, after which any further abort of the interaction is
  terminal.  \<open>retryCount\<close> is the number of retries so far, and the flag of the result
  says whether the abort is still retried.
\<close>

definition max_retry_count :: nat where
  "max_retry_count = 2"

definition runtime_abort :: "nat \<Rightarrow> stage_result \<Rightarrow> stage_result" where
  "runtime_abort retryCount r =
     (case r of Continue ms \<Rightarrow> Continue ms
      | Abort reason retry \<Rightarrow> Abort reason (retry \<and> retryCount < max_retry_count))"

section \<open>The Escalation stage (escalation.processor.ts)\<close>

text \<open>
  \<open>registeredExpansions\<close> is the module's \<open>Map\<close> from skill pack to its record of
  topic expansions, in insertion order; it is a parameter of the stage.
  \<open>Object.assign\<close> merges the records, a later pack overriding an earlier one.  It
  assigns each own property of a record; for a property named \<open>__proto__\<close> the
  assignment would replace the prototype of the merged object instead, which the model
  does not follow: \<open>no_proto_key\<close> says that no registered record has such a property.
\<close>

type_synonym expansions = "(string \<times> string list) list"

definition object_assign :: "('k \<times> 'v) list \<Rightarrow> ('k \<times> 'v) list \<Rightarrow> ('k \<times> 'v) list" where
  "object_assign target source = fold (\<lambda>e acc. map_set (fst e) (snd e) acc) source target"

definition allExpansions :: "(string \<times> expansions) list \<Rightarrow> expansions" where
  "allExpansions registeredExpansions =
     fold (\<lambda>pack acc. object_assign acc (snd pack)) registeredExpansions []"

definition no_proto_key :: "(string \<times> expansions) list \<Rightarrow> bool" where
  "no_proto_key registeredExpansions =
     list_all (\<lambda>pack. \<not> map_has ''__proto__'' (snd pack)) registeredExpansions"

text \<open>
  A keyword of a trigger: a string, or the member of \<open>Object.prototype\<close> of the given
  name, which \<open>flatMap\<close> keeps as it is and \<open>includes\<close> converts to a string.
\<close>

datatype keyword = Kw string | Inherited string

definition kw_text :: "keyword \<Rightarrow> string" where
  "kw_text kw = (case kw of Kw s \<Rightarrow> s | Inherited n \<Rightarrow> inherited_text n)"

text \<open>
  \<open>allExpansions[topic] || [topic.replace(/_/g, " ")]\<close>: the registered expansion, else
  the inherited member of that name, else the label.
\<close>

definition expand_topic :: "expansions \<Rightarrow> string \<Rightarrow> keyword list" where
  "expand_topic exps topic =
     (case map_get topic exps of
        Some kws \<Rightarrow> map Kw kws
      | None \<Rightarrow> if topic \<in> set object_prototype_members then [Inherited topic]
                else [Kw (underscores_to_spaces topic)])"

definition topicTriggers :: "Mandate \<Rightarrow> EscalationTrigger list" where
  "topicTriggers mandate =
     filter (\<lambda>t. condition t = ''topic_match'') (triggers (escalation mandate))"

definition distressTrigger :: "Mandate \<Rightarrow> EscalationTrigger option" where
  "distressTrigger mandate =
     find (\<lambda>t. condition t = ''user_distress_detected'') (triggers (escalation mandate))"

definition trigger_key :: "EscalationTrigger \<Rightarrow> string list \<Rightarrow> string" where
  "trigger_key t tps = condition t @ ''-'' @ join '','' tps"

text \<open>
  The \<open>Map\<close> \<open>topicKeywords\<close>: for each topic trigger that has topics, its key and the
  pair of its keywords and the trigger itself.
\<close>

definition add_topic_trigger ::
  "expansions \<Rightarrow> EscalationTrigger
     \<Rightarrow> (string \<times> keyword list \<times> EscalationTrigger) list
     \<Rightarrow> (string \<times> keyword list \<times> EscalationTrigger) list" where
  "add_topic_trigger exps t m =
     (case topics t of None \<Rightarrow> m
      | Some tps \<Rightarrow> map_set (trigger_key t tps) (flatMap (expand_topic exps) tps, t) m)"

definition topicKeywords ::
  "expansions \<Rightarrow> Mandate \<Rightarrow> (string \<times> keyword list \<times> EscalationTrigger) list" where
  "topicKeywords exps mandate = fold (add_topic_trigger exps) (topicTriggers mandate) []"

definition distressKeywords :: "string list" where
  "distressKeywords =
     [''desperate'', ''no way out'', ''can'' @ [CHR 0x27] @ ''t take it'', ''losing everything'',
      ''threat'', ''threatened'', ''scared for my life'', ''help me please'',
      ''don'' @ [CHR 0x27] @ ''t know what to do'', ''emergency'']"

text \<open>\<open>keywords.some(kw => lowerText.includes(kw))\<close>.\<close>

definition keywords_match :: "string \<Rightarrow> keyword list \<Rightarrow> bool" where
  "keywords_match lowerText kws = list_ex (\<lambda>kw. str_includes lowerText (kw_text kw)) kws"

definition refuses :: "EscalationTrigger \<Rightarrow> bool" where
  "refuses t = (action t = Refuse_and_redirect \<or> action t = Refuse)"

text \<open>The trigger's message, with its resources appended when it has any.\<close>

definition abort_message :: "EscalationTrigger \<Rightarrow> string" where
  "abort_message t =
     (case resources t of None \<Rightarrow> message t
      | Some rs \<Rightarrow> message t @ ''\<newline>\<newline>'' @ join ''\<newline>'' rs)"

definition distress_check :: "Mandate \<Rightarrow> string \<Rightarrow> Message list \<Rightarrow> stage_result" where
  "distress_check mandate lowerText messages =
     (case distressTrigger mandate of
        None \<Rightarrow> Continue messages
      | Some d \<Rightarrow> if list_ex (\<lambda>kw. str_includes lowerText kw) distressKeywords
                  then Abort (abort_message d) False else Continue messages)"

definition escalation_processInput ::
  "(string \<times> expansions) list \<Rightarrow> (json \<Rightarrow> string) \<Rightarrow> Mandate \<Rightarrow> Message list \<Rightarrow> stage_result" where
  "escalation_processInput registeredExpansions stringify mandate messages =
    (case findLast is_user messages of
       None \<Rightarrow> Continue messages
     | Some lastUserMsg \<Rightarrow>
        let lowerText = toLowerCase (text_of stringify lastUserMsg)
        in (case find (\<lambda>e. keywords_match lowerText (fst (snd e)))
                  (topicKeywords (allExpansions registeredExpansions) mandate) of
              None \<Rightarrow> distress_check mandate lowerText messages
            | Some e \<Rightarrow>
                if refuses (snd (snd e)) then Abort (abort_message (snd (snd e))) False
                else distress_check mandate lowerText messages))"

text \<open>
  For the statements about triggers: the keywords of a trigger and whether they occur
  in the lowercased text.
\<close>

definition trigger_keywords :: "expansions \<Rightarrow> EscalationTrigger \<Rightarrow> keyword list" where
  "trigger_keywords exps t =
     (case topics t of None \<Rightarrow> [] | Some tps \<Rightarrow> flatMap (expand_topic exps) tps)"

definition trigger_matches :: "expansions \<Rightarrow> string \<Rightarrow> EscalationTrigger \<Rightarrow> bool" where
  "trigger_matches exps lowerText t =
     (condition t = ''topic_match'' \<and> topics t \<noteq> None
      \<and> keywords_match lowerText (trigger_keywords exps t))"

definition trigger_key_of :: "EscalationTrigger \<Rightarrow> string" where
  "trigger_key_of t = trigger_key t (case topics t of None \<Rightarrow> [] | Some tps \<Rightarrow> tps)"

text \<open>The entry of \<open>topicKeywords\<close> that a trigger with topics writes.\<close>

definition topic_entry ::
  "expansions \<Rightarrow> EscalationTrigger \<Rightarrow> string \<times> keyword list \<times> EscalationTrigger" where
  "topic_entry exps t = (trigger_key_of t, trigger_keywords exps t, t)"

section \<open>The Citation stage (citation.processor.ts)\<close>

text \<open>
  A pattern of the stage is its test on a text.  \<open>new RegExp(src, "i")\<close> for a source
  label that is none of the four known ones is the runtime's: the parameter \<open>RegExp_i\<close>
  gives the test of the compiled pattern, or \<open>None\<close> when the constructor throws.
\<close>

type_synonym pattern = "string \<Rightarrow> bool"

text \<open>
  \<open>source.replace(/_/g, ...)\<close>: every underscore becomes the five characters of the
  class of white space and underscore.
\<close>

definition generic_source_pattern :: "string \<Rightarrow> string" where
  "generic_source_pattern source =
     concat (map (\<lambda>c. if c = CHR ''_'' then ''['' @ [CHR 0x5C] @ ''s_]'' else [c]) source)"

definition source_patterns :: "(string \<Rightarrow> pattern option) \<Rightarrow> string \<Rightarrow> pattern list option" where
  "source_patterns RegExp_i source =
     (if source = ''wikipedia''
        then Some [re_test (litsI ''wikipedia.org''), re_test (wordI ''wikipedia'')]
      else if source = ''reddit''
        then Some [re_test (litsI ''reddit.com''), re_test (wordI ''reddit'')]
      else if source = ''social_media''
        then Some [re_test (alts [litsI ''twitter.com'', litsI ''x.com'', litsI ''facebook.com'',
                                  litsI ''instagram.com'', litsI ''tiktok.com''])]
      else if source = ''blogs''
        then Some [re_test (wordI ''blog''), re_test (litsI ''medium.com''),
                   re_test (litsI ''wordpress.com'')]
      else (case RegExp_i (generic_source_pattern source) of
              None \<Rightarrow> None | Some p \<Rightarrow> Some [p]))"

text \<open>The nine citation patterns, in the order of the source.\<close>

definition citationPatterns :: "re list" where
  "citationPatterns =
     [seqs [WordB, lits ''Act'', Plus (Class Space),
            Class Digit, Class Digit, Class Digit, Class Digit, WordB],
      seqs [WordB, lits ''s.'', Plus (Class Digit)],
      seqs [WordB, Lit CHR ''s'', Opt (Lit CHR ''s''), Lit CHR ''.'', Star (Class Space),
            Plus (Class Digit)],
      seqs [WordB, litsI ''Section'', Plus (Class Space), Plus (Class Digit)],
      seqs [Opt (Lit CHR ''[''), Class Digit, Class Digit, Class Digit, Class Digit,
            Opt (Lit CHR '']''), Plus (Class Space), Class Upper, Plus (Class Alpha),
            Star (Seq (Plus (Class Space)) (Plus (Class Alpha))),
            Plus (Class Space), Plus (Class Digit)],
      seqs [lits ''v.'', Plus (Class Space)],
      litsI ''legislation.gov.uk'',
      seqs [Lit (CHR 0xA7), Star (Class Space), Plus (Class Digit)],
      seqs [lits ''http'', Opt (Lit CHR ''s''), lits ''://'', Plus (NotClass Space)]]"

definition hasCitations :: "string \<Rightarrow> bool" where
  "hasCitations txt = list_ex (\<lambda>p. re_test p txt) citationPatterns"

text \<open>
  The processor that \<open>createCitationProcessor\<close> returns: whether citations are required,
  and the blocked sources with their patterns.  The creation fails where \<open>new RegExp\<close>
  throws.
\<close>

record CitationProcessor =
  cp_required :: bool
  cp_blocked :: "(string \<times> pattern list) list"
  cp_allowed_sources :: "string list"

fun compile_blocked ::
  "(string \<Rightarrow> pattern option) \<Rightarrow> string list \<Rightarrow> (string \<times> pattern list) list option" where
  "compile_blocked RegExp_i [] = Some []"
| "compile_blocked RegExp_i (source # rest) =
     (case source_patterns RegExp_i source of
        None \<Rightarrow> None
      | Some ps \<Rightarrow> (case compile_blocked RegExp_i rest of
                      None \<Rightarrow> None
                    | Some r \<Rightarrow> Some ((source, ps) # r)))"

definition createCitationProcessor ::
  "(string \<Rightarrow> pattern option) \<Rightarrow> Mandate \<Rightarrow> CitationProcessor option" where
  "createCitationProcessor RegExp_i mandate =
    (let citationConfig = citations (requirements mandate)
     in if \<not> required citationConfig
        then Some \<lparr>cp_required = False, cp_blocked = [], cp_allowed_sources = []\<rparr>
        else (case compile_blocked RegExp_i (blocked_sources citationConfig) of
                None \<Rightarrow> None
              | Some b \<Rightarrow> Some \<lparr>cp_required = True, cp_blocked = b,
                            cp_allowed_sources = allowed_sources citationConfig\<rparr>))"

text \<open>Check 1: the first blocked source one of whose patterns matches the text.\<close>

definition blocked_hit :: "CitationProcessor \<Rightarrow> string \<Rightarrow> string option" where
  "blocked_hit proc txt =
     map_option fst (find (\<lambda>e. list_ex (\<lambda>p. p txt) (snd e)) (cp_blocked proc))"

definition lacks_citations_message :: string where
  "lacks_citations_message =
     ''Response lacks citations. All substantive legal information must cite ''
       @ ''relevant legislation, case law, or authoritative sources.''"

definition citation_processOutputResult ::
  "CitationProcessor \<Rightarrow> (json \<Rightarrow> string) \<Rightarrow> nat \<Rightarrow> Message list \<Rightarrow> stage_result" where
  "citation_processOutputResult proc stringify retryCount messages =
    (if \<not> cp_required proc then Continue messages
     else case findLast is_assistant messages of
       None \<Rightarrow> Continue messages
     | Some lastAssistantMsg \<Rightarrow>
        let txt = text_of stringify lastAssistantMsg
        in (case blocked_hit proc txt of
              Some source \<Rightarrow>
                if retryCount < 2
                then Abort (''Response references \"'' @ source @ ''\" which is a blocked source. ''
                              @ ''Use authoritative sources only: ''
                              @ join '', '' (cp_allowed_sources proc)) True
                else Abort (''I'' @ [CHR 0x27] @ ''m unable to provide a response using only ''
                              @ ''authoritative sources for this query.'') False
            | None \<Rightarrow>
                if length txt > 200 \<and> \<not> hasCitations txt \<and> retryCount < 2
                then Abort lacks_citations_message True
                else Continue messages))"

text \<open>
  For the statements about blocked sources: whether some pattern of some blocked source
  matches the text, and the two reasons of check 1.
\<close>

definition matches_blocked :: "CitationProcessor \<Rightarrow> string \<Rightarrow> bool" where
  "matches_blocked proc txt = list_ex (\<lambda>e. list_ex (\<lambda>p. p txt) (snd e)) (cp_blocked proc)"

definition blocked_source_message :: "CitationProcessor \<Rightarrow> string \<Rightarrow> string" where
  "blocked_source_message proc source =
     ''Response references \"'' @ source @ ''\" which is a blocked source. ''
       @ ''Use authoritative sources only: '' @ join '', '' (cp_allowed_sources proc)"

definition no_authoritative_message :: string where
  "no_authoritative_message =
     ''I'' @ [CHR 0x27] @ ''m unable to provide a response using only ''
       @ ''authoritative sources for this query.''"

section \<open>The Data Access stage (data-access.processor.ts)\<close>

fun extractStrings :: "json \<Rightarrow> string list" where
  "extractStrings (JStr s) = [s]"
| "extractStrings (JArr xs) = concat (map extractStrings xs)"
| "extractStrings (JObj kvs) = concat (map (\<lambda>e. extractStrings (snd e)) kvs)"
| "extractStrings j = []"

definition dataAccessRules :: "Mandate \<Rightarrow> DataAccessRule list" where
  "dataAccessRules mandate = data_access (capabilities mandate)"

definition allowedExtensions :: "Mandate \<Rightarrow> string list" where
  "allowedExtensions mandate =
     new_Set (flatMap (\<lambda>rule. case file_types rule of None \<Rightarrow> []
                              | Some fts \<Rightarrow> map toLowerCase fts) (dataAccessRules mandate))"

definition writeableScopes :: "Mandate \<Rightarrow> string list" where
  "writeableScopes mandate =
     new_Set (map scope (filter (\<lambda>rule. Write \<in> set (permissions rule)) (dataAccessRules mandate)))"

definition anyWriteAllowed :: "Mandate \<Rightarrow> bool" where
  "anyWriteAllowed mandate = (length (writeableScopes mandate) > 0)"

definition writePatterns :: "re list" where
  "writePatterns =
     [wordI ''write'', wordI ''save'', wordI ''create'', wordI ''delete'',
      wordI ''update'', wordI ''modify'', wordI ''append'', wordI ''overwrite'']"

definition writeToolPattern :: re where
  "writeToolPattern =
     alts [litsI ''write'', litsI ''save'', litsI ''create'', litsI ''delete'',
           litsI ''upload'', litsI ''send'']"

text \<open>\<open>value.lastIndexOf(".")\<close>, with \<open>-1\<close> when there is no dot.\<close>

definition lastIndexOf :: "char \<Rightarrow> string \<Rightarrow> int" where
  "lastIndexOf c s = (case findLastIndex (\<lambda>x. x = c) s of None \<Rightarrow> - 1 | Some i \<Rightarrow> int i)"

text \<open>
  The extension the stage checks in a string value, if the value looks like a file name:
  the lowercased text from the last dot on, when the dot is neither first nor last and
  the text is a dot and one to five letters.
\<close>

definition checked_extension :: "string \<Rightarrow> string option" where
  "checked_extension v =
    (let dotIndex = lastIndexOf CHR ''.'' v
     in if dotIndex > 0 \<and> dotIndex < int (length v) - 1
        then let ext = toLowerCase (drop (nat dotIndex) v)
             in if length ext \<ge> 2 \<and> length ext \<le> 6
                   \<and> re_test (seqs [Bol, Lit CHR ''.'', Plus (Class Alpha), Eol]) ext
                then Some ext else None
        else None)"

definition bad_extension :: "string list \<Rightarrow> string \<Rightarrow> string option" where
  "bad_extension allowedExts v =
     (case checked_extension v of None \<Rightarrow> None
      | Some ext \<Rightarrow> if ext \<in> set allowedExts then None else Some ext)"

text \<open>\<open>toolCall.toolName || toolCall.name || ""\<close>.\<close>

definition call_name_or_empty :: "ToolCall \<Rightarrow> string" where
  "call_name_or_empty tc = (case call_name tc of None \<Rightarrow> [] | Some n \<Rightarrow> n)"

definition write_denied_message :: string where
  "write_denied_message =
     ''Write operations are not permitted under the current mandate. ''
       @ ''All data access is read-only.''"

text \<open>The two checks on one tool call: the abort, if any.\<close>

definition data_access_call ::
  "Mandate \<Rightarrow> (json \<Rightarrow> string) \<Rightarrow> ToolCall \<Rightarrow> (string \<times> bool) option" where
  "data_access_call mandate stringify toolCall =
    (let exts = allowedExtensions mandate;
         bad = (if length exts > 0
                then first_some (bad_extension exts)
                       (case args toolCall of None \<Rightarrow> [] | Some a \<Rightarrow> extractStrings a)
                else None)
     in case bad of
          Some ext \<Rightarrow>
            Some (''File type \"'' @ ext @ ''\" is not permitted. Allowed types: ''
                    @ join '', '' exts, True)
        | None \<Rightarrow>
            if \<not> anyWriteAllowed mandate
               \<and> (list_ex (\<lambda>p. re_test p (toLowerCase (stringify (args_or_empty (args toolCall)))))
                      writePatterns
                    \<or> re_test writeToolPattern (call_name_or_empty toolCall))
            then Some (write_denied_message, True)
            else None)"

definition data_access_processOutputStep ::
  "Mandate \<Rightarrow> (json \<Rightarrow> string) \<Rightarrow> Message list \<Rightarrow> ToolCall list option \<Rightarrow> stage_result" where
  "data_access_processOutputStep mandate stringify messages toolCalls =
    (case toolCalls of
       None \<Rightarrow> Continue messages
     | Some calls \<Rightarrow>
        (case first_some (data_access_call mandate stringify) calls of
           Some a \<Rightarrow> Abort (fst a) (snd a)
         | None \<Rightarrow> Continue messages))"

text \<open>
  For the statements about check 2: whether a call is taken for a write operation, by
  its serialised arguments or by the name of its tool.
\<close>

definition write_operation :: "(json \<Rightarrow> string) \<Rightarrow> ToolCall \<Rightarrow> bool" where
  "write_operation stringify toolCall =
     (list_ex (\<lambda>p. re_test p (toLowerCase (stringify (args_or_empty (args toolCall)))))
        writePatterns
      \<or> re_test writeToolPattern (call_name_or_empty toolCall))"

section \<open>Example mandates\<close>

text \<open>Concrete mandates on which the theorems below are instantiated.\<close>

definition ex_mandate :: Mandate where
  "ex_mandate =
     \<lparr> version = ''1.0'',
       metadata = \<lparr> name = ''tenant'', description = ''Tenant rights'', author = ''a'',
         created = ''2025-01-01'', tags = [''law''], skill_packs = Some [''uk-law''] \<rparr>,
       capabilities = \<lparr> tools = [''formal-letter'', ''legislation-lookup'', ''calendar-create''],
         data_access = [\<lparr> scope = ''user_uploads'', permissions = [Read],
           file_types = Some [''.pdf'', ''.docx''], databases = None \<rparr>],
         output_types = [''letter''] \<rparr>,
       prohibitions = \<lparr> ptools = [''email-send'', ''calendar-*''], actions = [''provide_legal_advice''],
         pdata = [''medical_records''] \<rparr>,
       requirements = \<lparr> disclaimers = [],
         citations = \<lparr> required = True, format = Inline, min_per_claim = 1,
           allowed_sources = [''uk_primary_legislation''], blocked_sources = [''wikipedia''] \<rparr>,
         human_review = \<lparr> required_before = [''finalize_document''], review_prompt = ''Review'' \<rparr>,
         audit = \<lparr> log_level = Actions_only, include_llm_calls = False,
           include_tool_calls = True, retention_days = 90 \<rparr> \<rparr>,
       mscope = \<lparr> allowed = [''GB-EAW''], behavior_on_unsupported = RefuseScope,
         escalation_message = ''I only cover England and Wales.'' \<rparr>,
       escalation = \<lparr> triggers = [] \<rparr>,
       limits = \<lparr> max_tokens_per_turn = 4000, max_tool_calls_per_turn = 5,
         max_turns_per_session = 50, max_concurrent_sessions = 10,
         token_budget_daily = 100000, timeout_seconds = 120 \<rparr> \<rparr>"

definition ex_mandate2 :: Mandate where
  "ex_mandate2 =
     ex_mandate \<lparr>
       metadata := (metadata ex_mandate) \<lparr> name := ''contract'' \<rparr>,
       capabilities := \<lparr> tools = [''legislation-lookup'', ''contract-parse''],
         data_access = [], output_types = [''summary''] \<rparr>,
       requirements := (requirements ex_mandate) \<lparr>
         citations := \<lparr> required = False, format = Footnote, min_per_claim = 0,
           allowed_sources = [], blocked_sources = [] \<rparr>,
         human_review := \<lparr> required_before = [], review_prompt = [] \<rparr> \<rparr>,
       limits := \<lparr> max_tokens_per_turn = 2000, max_tool_calls_per_turn = 8,
         max_turns_per_session = 20, max_concurrent_sessions = 10,
         token_budget_daily = 50000, timeout_seconds = 300 \<rparr> \<rparr>"

definition ex_clock :: "int \<Rightarrow> InputClock" where
  "ex_clock t = \<lparr>today = ''Mon Jan 05 2026'', now_created = t, now_checked = t + 1, now_turn = t + 1\<rparr>"

text \<open>
  The examples have string contents and string arguments only, on which the stages never
  call \<open>JSON.stringify\<close>; \<open>no_stringify\<close> stands for it there.
\<close>

definition no_stringify :: "json \<Rightarrow> string" where
  "no_stringify j = []"

definition ex_call :: ToolCall where
  "ex_call = \<lparr>toolName = Some ''legislation-lookup'', tname = None,
               args = Some (JObj [(''query'', JStr ''Housing Act'')])\<rparr>"

definition ex_warn_trigger :: EscalationTrigger where
  "ex_warn_trigger =
     \<lparr>condition = ''topic_match'', threshold = None, topics = Some [''criminal_law''],
      action = Warn_user, message = ''Criminal matters need a solicitor.'', resources = None\<rparr>"

definition ex_refuse_trigger :: EscalationTrigger where
  "ex_refuse_trigger =
     \<lparr>condition = ''topic_match'', threshold = None, topics = Some [''immigration''],
      action = Refuse, message = ''I cannot help with immigration.'',
      resources = Some [''https://www.gov.uk/find-an-immigration-adviser'']\<rparr>"

definition ex_esc_mandate :: Mandate where
  "ex_esc_mandate =
     ex_mandate\<lparr>escalation := \<lparr>triggers = [ex_warn_trigger, ex_refuse_trigger]\<rparr>\<rparr>"

definition ex_user_msgs :: "Message list" where
  "ex_user_msgs =
     [\<lparr>role = ''user'', content = JStr ''Criminal law and Immigration''\<rparr>]"

definition ex_immigration_msgs :: "Message list" where
  "ex_immigration_msgs =
     [\<lparr>role = ''user'', content = JStr ''An Immigration question''\<rparr>,
      \<lparr>role = ''assistant'', content = JStr ''...''\<rparr>]"

text \<open>
  The example's only blocked source is one of the four known ones, so the \<open>RegExp\<close>
  constructor is never called; \<open>no_RegExp\<close> stands for it.
\<close>

definition no_RegExp :: "string \<Rightarrow> pattern option" where
  "no_RegExp src = None"

definition ex_long_answer :: string where
  "ex_long_answer =
     replicate 300 CHR ''x'' @ '' You can claim it back.''"

definition ex_cited_answer :: string where
  "ex_cited_answer =
     replicate 300 CHR ''x'' @ '' See the Housing Act 2004, s.213.''"

definition ex_wikipedia_answer :: string where
  "ex_wikipedia_answer = ''It says so on wikipedia.org''"

definition answer :: "string \<Rightarrow> Message list" where
  "answer txt = [\<lparr>role = ''user'', content = JStr ''What about my deposit?''\<rparr>,
                 \<lparr>role = ''assistant'', content = JStr txt\<rparr>]"

text \<open>A mandate whose only data-access rule grants writing and lists no file types.\<close>

definition ex_open_mandate :: Mandate where
  "ex_open_mandate =
     ex_mandate\<lparr>capabilities := (capabilities ex_mandate)\<lparr>data_access :=
       [\<lparr>scope = ''workspace'', permissions = [Read, Write], file_types = None,
         databases = None\<rparr>]\<rparr>\<rparr>"

text \<open>A mandate that grants writing and allows two file types.\<close>

definition ex_files_mandate :: Mandate where
  "ex_files_mandate =
     ex_mandate\<lparr>capabilities := (capabilities ex_mandate)\<lparr>data_access :=
       [\<lparr>scope = ''workspace'', permissions = [Read, Write], file_types = Some [''.PDF'', ''.docx''],
         databases = None\<rparr>]\<rparr>\<rparr>"

definition ex_file_call :: "string \<Rightarrow> ToolCall" where
  "ex_file_call f =
     \<lparr>toolName = Some ''doc-reader'', tname = None,
      args = Some (JObj [(''options'', JArr [JNum 1, JObj [(''file'', JStr f)]])])\<rparr>"

text \<open>
  A registry with one skill pack, and an answer that names a blocked source.
\<close>

definition ex_registry :: "(string \<times> expansions) list" where
  "ex_registry = [(''uk-law'', [(''immigration'', [''visa'', ''asylum'', ''immigration''])])]"

definition ex_blocked_answer :: string where
  "ex_blocked_answer = ''wikipedia says so''"

text \<open>
  A mandate without data-access rules: no file types and no write permission.  On its
  calls the stage serialises the arguments; \<open>ex_stringify\<close> is \<open>JSON.stringify\<close> on values
  without numbers other than integers and without characters that need escaping.
\<close>

definition ex_bare_mandate :: Mandate where
  "ex_bare_mandate = ex_mandate\<lparr>capabilities := (capabilities ex_mandate)\<lparr>data_access := []\<rparr>\<rparr>"

fun ex_stringify :: "json \<Rightarrow> string" where
  "ex_stringify JNull = ''null''"
| "ex_stringify (JBool b) = (if b then ''true'' else ''false'')"
| "ex_stringify (JNum r) = show_int \<lfloor>r\<rfloor>"
| "ex_stringify (JStr s) = [CHR 0x22] @ s @ [CHR 0x22]"
| "ex_stringify (JArr xs) = ''['' @ join '','' (map ex_stringify xs) @ '']''"
| "ex_stringify (JObj kvs) =
     ''{'' @ join '','' (map (\<lambda>e. [CHR 0x22] @ fst e @ [CHR 0x22] @ '':'' @ ex_stringify (snd e)) kvs)
       @ ''}''"

definition ex_plain_call :: "string \<Rightarrow> string \<Rightarrow> ToolCall" where
  "ex_plain_call tool f =
     \<lparr>toolName = Some tool, tname = None, args = Some (JObj [(''path'', JStr f)])\<rparr>"

text \<open>
  A mandate whose only escalation topic and only prohibited data category are named
  \<open>constructor\<close>, like a member of \<open>Object.prototype\<close>.
\<close>

definition ex_constructor_trigger :: EscalationTrigger where
  "ex_constructor_trigger =
     \<lparr>condition = ''topic_match'', threshold = None, topics = Some [''constructor''],
      action = Refuse, message = ''I cannot help with that.'', resources = None\<rparr>"

definition ex_constructor_mandate :: Mandate where
  "ex_constructor_mandate =
     ex_mandate\<lparr>prohibitions := (prohibitions ex_mandate)\<lparr>pdata := [''constructor'']\<rparr>,
                escalation := \<lparr>triggers = [ex_constructor_trigger]\<rparr>\<rparr>"

definition ex_constructor_msgs :: "Message list" where
  "ex_constructor_msgs = [\<lparr>role = ''user'', content = JStr ''What is a constructor?''\<rparr>]"

text \<open>
  \<open>with_later_fields\<close> overwrites the data-access rules, the citation requirements and the
  human-review configuration of a mandate, to state that these fields of a later input
  of the composition do not matter.
\<close>

definition with_later_fields ::
  "(Mandate \<Rightarrow> DataAccessRule list) \<Rightarrow> (Mandate \<Rightarrow> CitationRequirements)
     \<Rightarrow> (Mandate \<Rightarrow> HumanReviewConfig) \<Rightarrow> Mandate \<Rightarrow> Mandate" where
  "with_later_fields da c h m =
     m\<lparr>capabilities := (capabilities m)\<lparr>data_access := da m\<rparr>,
       requirements := (requirements m)\<lparr>citations := c m, human_review := h m\<rparr>\<rparr>"

section \<open>Verified properties\<close>

subsection \<open>Collections\<close>

lemma set_foldl_set_add: "set (foldl set_add acc xs) = set acc \<union> set xs"
  by (induction xs arbitrary: acc) (auto simp: set_add_def)

lemma set_new_Set: "set (new_Set xs) = set xs"
  by (simp add: new_Set_def set_foldl_set_add)

lemma Math_min_eq: "Math_min x xs = Min (set (x # xs))"
  by (simp only: Math_min_def Min.set_eq_fold)

subsection \<open>Tool resolution\<close>

text \<open>
  C1.  A tool identifier (\<open>tool.id || key\<close>) occurs among the tools that
  \<open>filterToolsByMandate\<close> returns if and only if it is in the capability whitelist, it is
  the identifier of a tool of the given tool set, it equals no prohibition entry without
  a wildcard, and no prohibition entry with a wildcard, its marker removed, is a prefix
  of it.
\<close>

theorem filterToolsByMandate_iff:
  "tid \<in> toolId ` set (filterToolsByMandate allTools mandate) \<longleftrightarrow>
     tid \<in> set (tools (capabilities mandate))
     \<and> tid \<in> toolId ` set allTools
     \<and> \<not> (\<exists>t \<in> set (ptools (prohibitions mandate)). \<not> is_wildcard t \<and> t = tid)
     \<and> \<not> (\<exists>t \<in> set (ptools (prohibitions mandate)).
             is_wildcard t \<and> prefix (wildcard_prefix t) tid)"
  by (auto simp: filterToolsByMandate_def tool_allowed_def prohibitedExact_def
      prohibitedPrefixes_def set_new_Set startsWith_def list_ex_iff)

theorem filterToolsByMandate_iff_witness:
  "''formal-letter'' \<in> toolId ` set (filterToolsByMandate
       [(''formal-letter'', \<lparr>tool_id = Some ''formal-letter'', tool_body = ()\<rparr>),
        (''email-send'', \<lparr>tool_id = Some ''email-send'', tool_body = ()\<rparr>),
        (''calendar-create'', \<lparr>tool_id = None, tool_body = ()\<rparr>)] ex_mandate)
   \<and> ''calendar-create'' \<notin> toolId ` set (filterToolsByMandate
       [(''formal-letter'', \<lparr>tool_id = Some ''formal-letter'', tool_body = ()\<rparr>),
        (''email-send'', \<lparr>tool_id = Some ''email-send'', tool_body = ()\<rparr>),
        (''calendar-create'', \<lparr>tool_id = None, tool_body = ()\<rparr>)] ex_mandate)"
  using filterToolsByMandate_iff [of "''formal-letter''"
       "[(''formal-letter'', \<lparr>tool_id = Some ''formal-letter'', tool_body = ()\<rparr>),
        (''email-send'', \<lparr>tool_id = Some ''email-send'', tool_body = ()\<rparr>),
        (''calendar-create'', \<lparr>tool_id = None, tool_body = ()\<rparr>)]" ex_mandate]
     filterToolsByMandate_iff [of "''calendar-create''"
       "[(''formal-letter'', \<lparr>tool_id = Some ''formal-letter'', tool_body = ()\<rparr>),
        (''email-send'', \<lparr>tool_id = Some ''email-send'', tool_body = ()\<rparr>),
        (''calendar-create'', \<lparr>tool_id = None, tool_body = ()\<rparr>)]" ex_mandate]
  by (simp add: ex_mandate_def toolId_def is_wildcard_def wildcard_prefix_def)

subsection \<open>Composition\<close>

lemma compose_many_limits:
  "max_tokens_per_turn (limits (compose_many n base rest)) = Min ((\<lambda>m. max_tokens_per_turn (limits m)) ` set (base # rest))"
  "max_tool_calls_per_turn (limits (compose_many n base rest)) = Min ((\<lambda>m. max_tool_calls_per_turn (limits m)) ` set (base # rest))"
  "max_turns_per_session (limits (compose_many n base rest)) = Min ((\<lambda>m. max_turns_per_session (limits m)) ` set (base # rest))"
  "max_concurrent_sessions (limits (compose_many n base rest)) = Min ((\<lambda>m. max_concurrent_sessions (limits m)) ` set (base # rest))"
  "token_budget_daily (limits (compose_many n base rest)) = Min ((\<lambda>m. token_budget_daily (limits m)) ` set (base # rest))"
  "timeout_seconds (limits (compose_many n base rest)) = Min ((\<lambda>m. timeout_seconds (limits m)) ` set (base # rest))"
  by (simp_all add: compose_many_def Let_def Math_min_eq)

lemma compose_many_tools:
  "set (tools (capabilities (compose_many n base rest)))
     \<subseteq> (\<Inter>m \<in> set (base # rest). set (tools (capabilities m)))"
  by (auto simp: compose_many_def Let_def intersect_all_def set_new_Set list_all_iff)

text \<open>
  C2.  For a non-empty list of mandates \<open>composeMandates\<close> returns a mandate whose six
  limits are the minima of the inputs' limits, field by field, and whose capability tools
  all lie in every input's capability tools.
\<close>

theorem composeMandates_limits:
  assumes "mandates \<noteq> []"
  shows "\<exists>r. composeMandates nowISO mandates = Inr r
    \<and> max_tokens_per_turn (limits r) = Min ((\<lambda>m. max_tokens_per_turn (limits m)) ` set mandates)
    \<and> max_tool_calls_per_turn (limits r) = Min ((\<lambda>m. max_tool_calls_per_turn (limits m)) ` set mandates)
    \<and> max_turns_per_session (limits r) = Min ((\<lambda>m. max_turns_per_session (limits m)) ` set mandates)
    \<and> max_concurrent_sessions (limits r) = Min ((\<lambda>m. max_concurrent_sessions (limits m)) ` set mandates)
    \<and> token_budget_daily (limits r) = Min ((\<lambda>m. token_budget_daily (limits m)) ` set mandates)
    \<and> timeout_seconds (limits r) = Min ((\<lambda>m. timeout_seconds (limits m)) ` set mandates)
    \<and> set (tools (capabilities r)) \<subseteq> (\<Inter>m \<in> set mandates. set (tools (capabilities m)))"
proof (cases mandates)
  case Nil
  with assms show ?thesis by simp
next
  case (Cons base rest)
  show ?thesis
  proof (cases rest)
    case Nil
    with Cons show ?thesis by simp
  next
    case (Cons m ms)
    with \<open>mandates = base # rest\<close> have ms: "mandates = base # m # ms" by simp
    have "composeMandates nowISO mandates = Inr (compose_many nowISO base (m # ms))"
      by (simp add: ms)
    then show ?thesis
      unfolding ms using compose_many_limits [of nowISO base "m # ms"]
        compose_many_tools [of nowISO base "m # ms"]
      by blast
  qed
qed

theorem composeMandates_limits_witness:
  "[ex_mandate, ex_mandate2] \<noteq> []
   \<and> (\<exists>r. composeMandates ''2026-01-01T10:00:00.000Z'' [ex_mandate, ex_mandate2] = Inr r
      \<and> max_tokens_per_turn (limits r) = 2000
      \<and> max_tool_calls_per_turn (limits r) = 5
      \<and> max_turns_per_session (limits r) = 20
      \<and> max_concurrent_sessions (limits r) = 10
      \<and> token_budget_daily (limits r) = 50000
      \<and> timeout_seconds (limits r) = 120
      \<and> set (tools (capabilities r)) \<subseteq> {''legislation-lookup''})"
  using composeMandates_limits [of "[ex_mandate, ex_mandate2]" "''2026-01-01T10:00:00.000Z''"]
  by (simp add: ex_mandate_def ex_mandate2_def)

text \<open>
  C9.  \<open>composeMandates\<close> throws exactly when it is given no mandate, and a single mandate
  is returned as it is: the value is the input's, and so is the object, which keeps its
  address.
\<close>

theorem composeMandates_zero_one:
  "(isl (composeMandates nowISO mandates) \<longleftrightarrow> mandates = [])
   \<and> composeMandates nowISO [m] = Inr m
   \<and> (isl (composeMandates_obj nowISO fresh objs) \<longleftrightarrow> objs = [])
   \<and> composeMandates_obj nowISO fresh [(a, m)] = Inr (a, m)"
proof -
  have "isl (composeMandates nowISO mandates) \<longleftrightarrow> mandates = []"
    by (cases "(nowISO, mandates)" rule: composeMandates.cases) simp_all
  moreover have "isl (composeMandates_obj nowISO fresh objs) \<longleftrightarrow> objs = []"
    by (cases "(nowISO, fresh, objs)" rule: composeMandates_obj.cases) simp_all
  ultimately show ?thesis by simp
qed

text \<open>
  C10.  For two or more mandates the composed mandate has the first mandate's data-access
  rules, citation requirements and human-review configuration, and it is the same
  whatever these three fields are in the later mandates.
\<close>

theorem composeMandates_base_fields:
  "\<exists>r. composeMandates nowISO (base # m # ms) = Inr r
     \<and> data_access (capabilities r) = data_access (capabilities base)
     \<and> citations (requirements r) = citations (requirements base)
     \<and> human_review (requirements r) = human_review (requirements base)
     \<and> composeMandates nowISO (base # map (with_later_fields da c h) (m # ms)) = Inr r"
  by (simp add: compose_many_def Let_def with_later_fields_def flatMap_def
      intersect_all_def comp_def list.pred_map)

subsection \<open>Maps and lists\<close>

lemma fst_replace: "fst ` set (map (\<lambda>e. if fst e = k then (k, v) else e) m) = fst ` set m"
  by (induction m) auto

lemma map_has_set [simp]: "map_has k (map_set k v m)"
proof (cases "map_has k m")
  case True
  then have "map_set k v m = map (\<lambda>e. if fst e = k then (k, v) else e) m"
    by (simp add: map_set_def)
  with True show ?thesis by (simp only: map_has_def fst_replace)
next
  case False
  then show ?thesis by (simp add: map_has_def map_set_def)
qed

lemma map_of_replace: "k \<in> fst ` set m \<Longrightarrow>
    map_of (map (\<lambda>e. if fst e = k then (k, v) else e) m) k = Some v"
  by (induction m) auto

lemma map_get_set [simp]: "map_get k (map_set k v m) = Some v"
proof (cases "map_has k m")
  case False
  then have "map_of m k = None" by (simp add: map_has_def map_of_eq_None_iff)
  with False show ?thesis
    by (simp add: map_get_def map_set_def map_add_def)
next
  case True
  then show ?thesis by (simp add: map_get_def map_set_def map_has_def map_of_replace)
qed

lemma map_has_delete [simp]: "\<not> map_has k (map_delete k m)"
  by (auto simp: map_has_def map_delete_def)

lemma find_append_if:
  "find p (xs @ ys) = (case find p xs of None \<Rightarrow> find p ys | Some x \<Rightarrow> Some x)"
  by (induction xs) auto

lemma find_None_all: "\<forall>x \<in> set xs. \<not> p x \<Longrightarrow> find p xs = None"
  by (induction xs) auto

lemma findLast_last:
  assumes "p m" and "\<forall>x \<in> set post. \<not> p x"
  shows "findLast p (pre @ m # post) = Some m"
  using assms by (simp add: findLast_def find_append_if find_None_all)

lemma findLastIndex_snoc:
  "findLastIndex p (xs @ [y]) = (if p y then Some (length xs) else findLastIndex p xs)"
proof -
  have "find (\<lambda>i. p ((xs @ [y]) ! i)) (rev [0..<length xs])
      = find (\<lambda>i. p (xs ! i)) (rev [0..<length xs])"
    by (rule find_cong) (auto simp: nth_append)
  then show ?thesis by (simp add: findLastIndex_def)
qed

lemma findLastIndex_last:
  assumes "p m" and "\<forall>x \<in> set post. \<not> p x"
  shows "findLastIndex p (pre @ m # post) = Some (length pre)"
  using assms(2)
proof (induction post rule: rev_induct)
  case Nil
  show ?case using assms(1) findLastIndex_snoc [of p pre m] by simp
next
  case (snoc y ys)
  then have "\<not> p y" and "findLastIndex p (pre @ m # ys) = Some (length pre)" by simp_all
  then show ?case using findLastIndex_snoc [of p "pre @ m # ys" y] by simp
qed

lemma estimatedTokens_div: "estimatedTokens txt = (int (length txt) + 3) div 4"
  unfolding estimatedTokens_def
  by (simp add: ceiling_altdef algebra_simps) linarith

subsection \<open>The Limits stage\<close>

text \<open>
  C4.  With \<open>max_turns_per_session = 2\<close>, three \<open>processInput\<close> calls in a row for one
  session identifier, starting where that session is not yet active, a session slot is
  free, the daily budget is not used up and the first two calls come within the timeout:
  the first and the second call return their messages, the third aborts without retry
  with the session-limit message, and the session is no longer in \<open>activeSessions\<close>.
\<close>

theorem limits_three_turns:
  assumes two: "max_turns_per_session lims = 2"
    and sid: "session_of sa = sid" "session_of sb = sid" "session_of sc = sid"
    and fresh: "\<not> map_has sid (activeSessions g0)"
    and room: "int (length (activeSessions g0)) < max_concurrent_sessions lims"
    and budget: "0 < token_budget_daily lims" "dailyTokensUsed g0 < token_budget_daily lims"
    and t1: "now_checked c1 - now_created c1 \<le> 1000 * timeout_seconds lims"
    and t2: "now_checked c2 - now_created c1 \<le> 1000 * timeout_seconds lims"
  shows "\<exists>g1 g2 g3 s1 s2 s3.
      limits_processInput lims c1 sa g0 msgs1 = (Continue msgs1, g1, s1)
    \<and> limits_processInput lims c2 sb g1 msgs2 = (Continue msgs2, g2, s2)
    \<and> limits_processInput lims c3 sc g2 msgs3 =
         (Abort ''Session limit reached (2 turns). Please start a new conversation.'' False, g3, s3)
    \<and> \<not> map_has sid (activeSessions g3)"
proof -
  define ga where "ga = resetDailyIfNeeded (today c1) g0"
  have ga_s: "activeSessions ga = activeSessions g0"
    and ga_d: "dailyTokensUsed ga < token_budget_daily lims"
    using budget by (auto simp: ga_def resetDailyIfNeeded_def)
  define ses1 where "ses1 = map_set sid \<lparr>turns = 1, startedAt = now_created c1\<rparr>
      (map_set sid \<lparr>turns = 0, startedAt = now_created c1\<rparr> (activeSessions g0))"
  define g1 where "g1 = ga\<lparr>activeSessions := ses1\<rparr>"
  have r1: "limits_processInput lims c1 sa g0 msgs1
      = (Continue msgs1, g1, sa\<lparr>sessionId := Some sid, turnStartTime := Some (now_turn c1)\<rparr>)"
    using fresh room two budget t1 ga_d
    by (simp add: limits_processInput_def Let_def sid ga_def[symmetric] ga_s g1_def ses1_def)
  define gb where "gb = resetDailyIfNeeded (today c2) g1"
  have gb_s: "activeSessions gb = ses1"
    and gb_d: "dailyTokensUsed gb < token_budget_daily lims"
    using budget ga_d by (auto simp: gb_def g1_def resetDailyIfNeeded_def)
  define ses2 where "ses2 = map_set sid \<lparr>turns = 2, startedAt = now_created c1\<rparr> ses1"
  define g2 where "g2 = gb\<lparr>activeSessions := ses2\<rparr>"
  have r2: "limits_processInput lims c2 sb g1 msgs2
      = (Continue msgs2, g2, sb\<lparr>sessionId := Some sid, turnStartTime := Some (now_turn c2)\<rparr>)"
    using two budget t2 gb_d
    by (simp add: limits_processInput_def Let_def sid gb_def[symmetric] gb_s g2_def ses2_def ses1_def)
  define gc where "gc = resetDailyIfNeeded (today c3) g2"
  have gc_s: "activeSessions gc = ses2"
    by (auto simp: gc_def g2_def resetDailyIfNeeded_def)
  define g3 where "g3 = gc\<lparr>activeSessions := map_delete sid
      (map_set sid \<lparr>turns = 3, startedAt = now_created c1\<rparr> ses2)\<rparr>"
  have r3: "limits_processInput lims c3 sc g2 msgs3
      = (Abort ''Session limit reached (2 turns). Please start a new conversation.'' False, g3, sc)"
    using two
    by (simp add: limits_processInput_def Let_def sid gc_def[symmetric] gc_s g3_def ses2_def
        session_limit_message_def show_int_def)
  have "\<not> map_has sid (activeSessions g3)" by (simp add: g3_def)
  with r1 r2 r3 show ?thesis by blast
qed


theorem limits_three_turns_witness:
  "\<exists>g1 g2 g3 s1 s2 s3.
      limits_processInput (limits ex_mandate\<lparr>max_turns_per_session := 2\<rparr>) (ex_clock 1000)
          \<lparr>sessionId = None, turnStartTime = None\<rparr>
          \<lparr>activeSessions = [], dailyTokensUsed = 0, lastResetDate = ''Mon Jan 05 2026''\<rparr>
          [\<lparr>role = ''user'', content = JStr ''Hi''\<rparr>]
        = (Continue [\<lparr>role = ''user'', content = JStr ''Hi''\<rparr>], g1, s1)
    \<and> limits_processInput (limits ex_mandate\<lparr>max_turns_per_session := 2\<rparr>) (ex_clock 2000)
          \<lparr>sessionId = None, turnStartTime = None\<rparr> g1
          [\<lparr>role = ''user'', content = JStr ''How?''\<rparr>]
        = (Continue [\<lparr>role = ''user'', content = JStr ''How?''\<rparr>], g2, s2)
    \<and> limits_processInput (limits ex_mandate\<lparr>max_turns_per_session := 2\<rparr>) (ex_clock 3000)
          \<lparr>sessionId = None, turnStartTime = None\<rparr> g2
          [\<lparr>role = ''user'', content = JStr ''Why?''\<rparr>]
        = (Abort ''Session limit reached (2 turns). Please start a new conversation.'' False, g3, s3)
    \<and> \<not> map_has ''default'' (activeSessions g3)"
  using limits_three_turns [of "limits ex_mandate\<lparr>max_turns_per_session := 2\<rparr>"
      "\<lparr>sessionId = None, turnStartTime = None\<rparr>" "''default''"
      "\<lparr>sessionId = None, turnStartTime = None\<rparr>" "\<lparr>sessionId = None, turnStartTime = None\<rparr>"
      "\<lparr>activeSessions = [], dailyTokensUsed = 0, lastResetDate = ''Mon Jan 05 2026''\<rparr>"
      "ex_clock 1000" "ex_clock 2000"
      "[\<lparr>role = ''user'', content = JStr ''Hi''\<rparr>]" "[\<lparr>role = ''user'', content = JStr ''How?''\<rparr>]"
      "ex_clock 3000" "[\<lparr>role = ''user'', content = JStr ''Why?''\<rparr>]"]
  by (simp add: ex_mandate_def ex_clock_def session_of_def map_has_def)

text \<open>
  C5.  On a result whose last assistant message is \<open>m\<close>, the Limits stage estimates
  its text at the ceiling of a quarter of its length.  If the estimate exceeds
  \<open>max_tokens_per_turn\<close>, the stage returns the messages with the text of \<open>m\<close> replaced
  by its first \<open>max_tokens_per_turn * 4\<close> characters and the truncation marker, without
  abort and without counting the tokens; otherwise it returns the messages as they are
  and adds the estimate to the daily counter (after the daily reset).
\<close>

theorem limits_truncation:
  assumes "is_assistant m" and "\<forall>x \<in> set post. \<not> is_assistant x"
  shows "limits_processOutputResult lims stringify date g (pre @ m # post) =
     (let txt = text_of stringify m;
          est = \<lceil>real (length txt) / 4\<rceil>;
          g' = resetDailyIfNeeded date g
      in if est > max_tokens_per_turn lims
         then (Continue (pre @ m\<lparr>content :=
                  JStr (take (nat (max_tokens_per_turn lims * 4)) txt @ truncation_marker)\<rparr> # post), g')
         else (Continue (pre @ m # post), g'\<lparr>dailyTokensUsed := dailyTokensUsed g' + est\<rparr>))"
  using assms
  by (simp add: limits_processOutputResult_def Let_def findLast_last findLastIndex_last
      estimatedTokens_def substring0_def)


theorem limits_truncation_witness:
  "limits_processOutputResult (limits ex_mandate\<lparr>max_tokens_per_turn := 2\<rparr>) (\<lambda>j. [])
       ''Mon Jan 05 2026''
       \<lparr>activeSessions = [], dailyTokensUsed = 7, lastResetDate = ''Mon Jan 05 2026''\<rparr>
       [\<lparr>role = ''user'', content = JStr ''Hi''\<rparr>,
        \<lparr>role = ''assistant'', content = JStr ''0123456789''\<rparr>,
        \<lparr>role = ''tool'', content = JNull\<rparr>]
     = (Continue [\<lparr>role = ''user'', content = JStr ''Hi''\<rparr>,
           \<lparr>role = ''assistant'', content = JStr (''01234567'' @ truncation_marker)\<rparr>,
           \<lparr>role = ''tool'', content = JNull\<rparr>],
        \<lparr>activeSessions = [], dailyTokensUsed = 7, lastResetDate = ''Mon Jan 05 2026''\<rparr>)
   \<and> limits_processOutputResult (limits ex_mandate\<lparr>max_tokens_per_turn := 3\<rparr>) (\<lambda>j. [])
       ''Mon Jan 05 2026''
       \<lparr>activeSessions = [], dailyTokensUsed = 7, lastResetDate = ''Mon Jan 05 2026''\<rparr>
       [\<lparr>role = ''user'', content = JStr ''Hi''\<rparr>,
        \<lparr>role = ''assistant'', content = JStr ''0123456789''\<rparr>,
        \<lparr>role = ''tool'', content = JNull\<rparr>]
     = (Continue [\<lparr>role = ''user'', content = JStr ''Hi''\<rparr>,
           \<lparr>role = ''assistant'', content = JStr ''0123456789''\<rparr>,
           \<lparr>role = ''tool'', content = JNull\<rparr>],
        \<lparr>activeSessions = [], dailyTokensUsed = 10, lastResetDate = ''Mon Jan 05 2026''\<rparr>)"
  using limits_truncation [of "\<lparr>role = ''assistant'', content = JStr ''0123456789''\<rparr>"
      "[\<lparr>role = ''tool'', content = JNull\<rparr>]"
      "limits ex_mandate\<lparr>max_tokens_per_turn := 2\<rparr>" "\<lambda>j. []" "''Mon Jan 05 2026''"
      "\<lparr>activeSessions = [], dailyTokensUsed = 7, lastResetDate = ''Mon Jan 05 2026''\<rparr>"
      "[\<lparr>role = ''user'', content = JStr ''Hi''\<rparr>]"]
    limits_truncation [of "\<lparr>role = ''assistant'', content = JStr ''0123456789''\<rparr>"
      "[\<lparr>role = ''tool'', content = JNull\<rparr>]"
      "limits ex_mandate\<lparr>max_tokens_per_turn := 3\<rparr>" "\<lambda>j. []" "''Mon Jan 05 2026''"
      "\<lparr>activeSessions = [], dailyTokensUsed = 7, lastResetDate = ''Mon Jan 05 2026''\<rparr>"
      "[\<lparr>role = ''user'', content = JStr ''Hi''\<rparr>]"]
  by (simp add: is_assistant_def text_of_def resetDailyIfNeeded_def Let_def)

subsection \<open>The Tool Gate stage\<close>

text \<open>
  C7.  When a batch has more calls than \<open>max_tool_calls_per_turn\<close> (which the schema has
  at least 1, and the statement takes not negative), the stage looks at no call: it logs
  the blocked batch and aborts with the retry flag set, whatever \<open>retryCount\<close> is.
  Under the abort mechanism of the runtime this rejection is retried while
  \<open>retryCount < 2\<close> and is terminal from \<open>retryCount = 2\<close> on.
\<close>

theorem tool_gate_call_limit:
  assumes "0 \<le> max_tool_calls_per_turn (limits mandate)"
    and "int (length calls) > max_tool_calls_per_turn (limits mandate)"
  shows "tool_gate_processOutputStep mandate stringify retryCount messages (Some calls)
       = (Inr (Abort (''Too many tool calls. Maximum is ''
                        @ show_int (max_tool_calls_per_turn (limits mandate)) @ ''.'') True),
          [\<lparr>a_check = ''tool_call_limit'', a_result = ''blocked'',
            a_detail = show_int (int (length calls)) @ '' calls exceeds limit of ''
                         @ show_int (max_tool_calls_per_turn (limits mandate))\<rparr>])
     \<and> map_sum id (runtime_abort retryCount)
           (fst (tool_gate_processOutputStep mandate stringify retryCount messages (Some calls)))
       = Inr (Abort (''Too many tool calls. Maximum is ''
                       @ show_int (max_tool_calls_per_turn (limits mandate)) @ ''.'')
                    (retryCount < 2))"
proof -
  from assms have "calls \<noteq> []" by auto
  with assms(2) show ?thesis
    by (simp add: tool_gate_processOutputStep_def runtime_abort_def max_retry_count_def)
qed

theorem tool_gate_call_limit_witness:
  "tool_gate_processOutputStep ex_mandate no_stringify 1 []
       (Some [ex_call, ex_call, ex_call, ex_call, ex_call, ex_call])
     = (Inr (Abort ''Too many tool calls. Maximum is 5.'' True),
        [\<lparr>a_check = ''tool_call_limit'', a_result = ''blocked'',
          a_detail = ''6 calls exceeds limit of 5''\<rparr>])
   \<and> map_sum id (runtime_abort 1)
         (fst (tool_gate_processOutputStep ex_mandate no_stringify 1 []
            (Some [ex_call, ex_call, ex_call, ex_call, ex_call, ex_call])))
     = Inr (Abort ''Too many tool calls. Maximum is 5.'' True)
   \<and> tool_gate_processOutputStep ex_mandate no_stringify 2 []
       (Some [ex_call, ex_call, ex_call, ex_call, ex_call, ex_call])
     = (Inr (Abort ''Too many tool calls. Maximum is 5.'' True),
        [\<lparr>a_check = ''tool_call_limit'', a_result = ''blocked'',
          a_detail = ''6 calls exceeds limit of 5''\<rparr>])
   \<and> map_sum id (runtime_abort 2)
         (fst (tool_gate_processOutputStep ex_mandate no_stringify 2 []
            (Some [ex_call, ex_call, ex_call, ex_call, ex_call, ex_call])))
     = Inr (Abort ''Too many tool calls. Maximum is 5.'' False)"
  using tool_gate_call_limit [of ex_mandate "[ex_call, ex_call, ex_call, ex_call, ex_call, ex_call]"
      no_stringify 1 "[]"]
    tool_gate_call_limit [of ex_mandate "[ex_call, ex_call, ex_call, ex_call, ex_call, ex_call]"
      no_stringify 2 "[]"]
  by (simp add: ex_mandate_def show_int_def runtime_abort_def max_retry_count_def)

text \<open>
  A prohibited data category named like a member of \<open>Object.prototype\<close> has no keyword
  list: on a call that passes the first three checks the stage throws.
\<close>

lemma tool_gate_inherited_member:
  "category_keywords ''constructor'' = None
   \<and> fst (tool_gate_processOutputStep ex_constructor_mandate no_stringify 0 [] (Some [ex_call]))
     = Inl ''TypeError: keywords.find is not a function''"
  by code_simp

subsection \<open>The Escalation stage\<close>

lemma find_first:
  "\<forall>x \<in> set xs. \<not> p x \<Longrightarrow> p y \<Longrightarrow> find p (xs @ y # ys) = Some y"
  by (induction xs) auto

lemma find_map_comp: "find p (map f xs) = map_option f (find (\<lambda>x. p (f x)) xs)"
  by (induction xs) auto

lemma map_set_fresh: "k \<notin> fst ` set m \<Longrightarrow> map_set k v m = m @ [(k, v)]"
  by (simp add: map_set_def map_has_def)

lemma fold_add_topic_trigger:
  "distinct (map fst acc @ map trigger_key_of (filter (\<lambda>t. topics t \<noteq> None) ts)) \<Longrightarrow>
   fold (add_topic_trigger exps) ts acc
     = acc @ map (topic_entry exps) (filter (\<lambda>t. topics t \<noteq> None) ts)"
proof (induction ts arbitrary: acc)
  case Nil
  then show ?case by simp
next
  case (Cons t ts)
  show ?case
  proof (cases "topics t")
    case None
    with Cons show ?thesis by (simp add: add_topic_trigger_def)
  next
    case (Some tps)
    have key: "trigger_key t tps = trigger_key_of t" by (simp add: trigger_key_of_def Some)
    from Cons.prems Some have fresh: "trigger_key_of t \<notin> fst ` set acc" by auto
    have step: "add_topic_trigger exps t acc = acc @ [topic_entry exps t]"
      using fresh by (simp add: add_topic_trigger_def Some key map_set_fresh topic_entry_def
          trigger_keywords_def)
    have "distinct (map fst (acc @ [topic_entry exps t])
        @ map trigger_key_of (filter (\<lambda>t. topics t \<noteq> None) ts))"
      using Cons.prems Some by (auto simp: topic_entry_def)
    from Cons.IH[OF this] show ?thesis by (simp add: step Some)
  qed
qed

lemma topicKeywords_distinct:
  assumes "distinct (map trigger_key_of (filter (\<lambda>t. topics t \<noteq> None) (topicTriggers mandate)))"
  shows "topicKeywords exps mandate
     = map (topic_entry exps) (filter (\<lambda>t. topics t \<noteq> None) (topicTriggers mandate))"
  using fold_add_topic_trigger [of "[]" "topicTriggers mandate" exps] assms
  by (simp add: topicKeywords_def)

text \<open>
  C3, as the code has it.  Let no registered record have a property \<open>__proto__\<close>, let
  the topic triggers that have topics carry pairwise different keys, and let \<open>t\<close> be the
  first trigger of the policy whose keywords occur in the lowercased last user message.
  The keywords of a topic are its registered expansion; a topic without one that is
  named like a member of \<open>Object.prototype\<close> has that member for its keyword, any other
  topic its label with spaces for underscores.  If the action of \<open>t\<close> is \<open>refuse\<close> or
  \<open>refuse_and_redirect\<close>, the stage aborts without retry with the message of \<open>t\<close> and
  its resources; if not, no topic trigger aborts, whatever the later triggers are, and
  the stage goes on to the distress check.
\<close>

theorem escalation_first_match:
  assumes user: "is_user m" "\<forall>x \<in> set post. \<not> is_user x"
    and noproto: "no_proto_key reg"
    and keys: "distinct (map trigger_key_of
                 (filter (\<lambda>t. topics t \<noteq> None) (topicTriggers mandate)))"
    and split: "triggers (escalation mandate) = before @ t # after"
    and hit: "trigger_matches (allExpansions reg) (toLowerCase (text_of stringify m)) t"
    and first: "\<forall>u \<in> set before.
                 \<not> trigger_matches (allExpansions reg) (toLowerCase (text_of stringify m)) u"
  shows "escalation_processInput reg stringify mandate (pre @ m # post)
     = (if refuses t then Abort (abort_message t) False
        else distress_check mandate (toLowerCase (text_of stringify m)) (pre @ m # post))"
proof -
  let ?exps = "allExpansions reg" and ?low = "toLowerCase (text_of stringify m)"
  let ?P = "\<lambda>t. topics t \<noteq> None"
  let ?Q = "\<lambda>t. condition t = ''topic_match''"
  have ts: "filter ?P (topicTriggers mandate)
      = filter ?P (filter ?Q before) @ t # filter ?P (filter ?Q after)"
    using hit by (simp add: topicTriggers_def split trigger_matches_def)
  have no: "\<forall>u \<in> set (filter ?P (filter ?Q before)).
      \<not> keywords_match ?low (fst (snd (topic_entry ?exps u)))"
    using first by (auto simp: trigger_matches_def topic_entry_def)
  have yes: "keywords_match ?low (fst (snd (topic_entry ?exps t)))"
    using hit by (simp add: trigger_matches_def topic_entry_def)
  have "find (\<lambda>e. keywords_match ?low (fst (snd e))) (topicKeywords ?exps mandate)
      = Some (topic_entry ?exps t)"
    unfolding topicKeywords_distinct[OF keys] find_map_comp ts
    using find_first [of "filter ?P (filter ?Q before)"
        "\<lambda>u. keywords_match ?low (fst (snd (topic_entry ?exps u)))" t] no yes
    by simp
  then show ?thesis
    using user
    by (simp add: escalation_processInput_def findLast_last Let_def topic_entry_def)
qed

lemmas escalation_example_defs =
  ex_esc_mandate_def ex_mandate_def ex_warn_trigger_def ex_refuse_trigger_def ex_registry_def
  is_user_def topicTriggers_def trigger_key_of_def trigger_key_def trigger_matches_def
  trigger_keywords_def keywords_match_def kw_text_def inherited_text_def
  object_prototype_members_def allExpansions_def object_assign_def no_proto_key_def
  expand_topic_def map_get_def map_set_def map_has_def flatMap_def underscores_to_spaces_def
  toLowerCase_def lower_char_def latin1_upper_def latin1_lower_def text_of_def refuses_def
  abort_message_def

theorem escalation_first_match_witness:
  "escalation_processInput ex_registry no_stringify ex_esc_mandate ex_immigration_msgs
     = Abort (''I cannot help with immigration.'' @ ''\<newline>\<newline>''
                @ ''https://www.gov.uk/find-an-immigration-adviser'') False"
  using escalation_first_match [where m = "\<lparr>role = ''user'', content = JStr ''An Immigration question''\<rparr>"
      and post = "[\<lparr>role = ''assistant'', content = JStr ''...''\<rparr>]" and pre = "[]"
      and mandate = ex_esc_mandate and before = "[ex_warn_trigger]" and t = ex_refuse_trigger
      and after = "[]" and reg = ex_registry and stringify = no_stringify]
  by (simp add: ex_immigration_msgs_def escalation_example_defs)

text \<open>
  A topic named like a member of \<open>Object.prototype\<close> and without a registered expansion
  has that member for its keyword, not its label: the user message has the label in it
  and the trigger does not match.
\<close>

lemma escalation_inherited_member:
  "expand_topic (allExpansions ex_registry) ''constructor'' = [Inherited ''constructor'']
   \<and> escalation_processInput ex_registry no_stringify ex_constructor_mandate ex_constructor_msgs
     = Continue ex_constructor_msgs"
  by code_simp

text \<open>
  C3, as the claim has it, fails: the second trigger is a topic trigger of the policy,
  its keyword occurs in the lowercased last user message and its action is \<open>refuse\<close>,
  but the first trigger matches too and only warns, and the stage returns the messages.
\<close>

theorem escalation_every_trigger_counterexample:
  "ex_refuse_trigger \<in> set (triggers (escalation ex_esc_mandate))
   \<and> condition ex_refuse_trigger = ''topic_match''
   \<and> keywords_match (toLowerCase ''Criminal law and Immigration'')
         (trigger_keywords (allExpansions []) ex_refuse_trigger)
   \<and> refuses ex_refuse_trigger
   \<and> escalation_processInput [] no_stringify ex_esc_mandate ex_user_msgs = Continue ex_user_msgs"
  by (simp add: ex_user_msgs_def escalation_example_defs
      escalation_processInput_def findLast_def topicKeywords_def add_topic_trigger_def
      distress_check_def distressTrigger_def Let_def)

subsection \<open>The Citation stage\<close>

lemma search_append:
  "search r (if pre = [] then p else Some (last pre)) s \<Longrightarrow> search r p (pre @ s)"
proof (induction pre arbitrary: p)
  case Nil
  then show ?case by simp
next
  case (Cons c cs)
  then have "search r (if cs = [] then Some c else Some (last cs)) s"
    by (cases "cs = []") simp_all
  then have "search r (Some c) (cs @ s)" by (rule Cons.IH)
  then show ?case by simp
qed

lemma search_replicate:
  assumes "\<forall>p' s'. rmatch r (p', c # s') = []"
  shows "search r p (replicate (Suc n) c @ s) = search r (Some c) s"
  using assms by (induction n arbitrary: p) simp_all

lemma re_test_infix: "(\<And>p. search r p s) \<Longrightarrow> re_test r (a @ s)"
  unfolding re_test_def by (rule search_append)

lemma search_here: "rmatch r (p, s) \<noteq> [] \<Longrightarrow> search r p s"
  by (cases s) simp_all

lemma housing_act_match:
  "rmatch (seqs [WordB, lits ''Act'', Plus (Class Space),
            Class Digit, Class Digit, Class Digit, Class Digit, WordB])
      (Some CHR '' '', ''Act 2004, s.213'' @ b) = [(Some CHR ''4'', '', s.213'' @ b)]"
  by (simp add: Plus_def eat_def is_word_at_def next_char_def in_range_def)

lemma housing_act_cited: "hasCitations (a @ ''Housing Act 2004, s.213'' @ b)"
proof -
  let ?r = "seqs [WordB, lits ''Act'', Plus (Class Space),
            Class Digit, Class Digit, Class Digit, Class Digit, WordB]"
  have pre: "(if a @ ''Housing '' = [] then None else Some (last (a @ ''Housing '')))
      = Some CHR '' ''"
    by simp
  have "search ?r (Some CHR '' '') (''Act 2004, s.213'' @ b)"
    by (rule search_here) (simp only: housing_act_match, simp)
  then have "search ?r (if a @ ''Housing '' = [] then None else Some (last (a @ ''Housing '')))
      (''Act 2004, s.213'' @ b)"
    by (simp only: pre)
  then have "search ?r None ((a @ ''Housing '') @ ''Act 2004, s.213'' @ b)"
    by (rule search_append)
  then have "re_test ?r (a @ ''Housing Act 2004, s.213'' @ b)"
    by (simp only: re_test_def append_assoc append_Cons append_Nil)
  then show ?thesis
    by (simp only: hasCitations_def citationPatterns_def list_ex_Cons_iff simp_thms)
qed

lemma ex_proc:
  "createCitationProcessor no_RegExp ex_mandate
     = Some \<lparr>cp_required = True,
             cp_blocked = [(''wikipedia'', [re_test (litsI ''wikipedia.org''), re_test (wordI ''wikipedia'')])],
             cp_allowed_sources = [''uk_primary_legislation'']\<rparr>"
  by (simp add: createCitationProcessor_def ex_mandate_def source_patterns_def)



lemma no_start_at_x:
  "\<forall>r \<in> set (litsI ''wikipedia.org'' # wordI ''wikipedia'' # citationPatterns).
     \<forall>p s. rmatch r (p, CHR ''x'' # s) = []"
  by (simp add: citationPatterns_def Plus_def eat_def wordI_def lower_char_def
      latin1_upper_def latin1_lower_def in_range_def)

lemma skip_filler:
  assumes "r \<in> set (litsI ''wikipedia.org'' # wordI ''wikipedia'' # citationPatterns)"
  shows "re_test r (replicate 300 CHR ''x'' @ s) = search r (Some CHR ''x'') s"
proof -
  have "\<forall>p s. rmatch r (p, CHR ''x'' # s) = []" using no_start_at_x assms by blast
  from search_replicate [OF this, of None 299 s] show ?thesis by (simp add: re_test_def)
qed

lemma ex_long_answer_length: "length ex_long_answer > 200"
  by (simp add: ex_long_answer_def)

lemma ex_long_answer_patterns:
  "\<forall>r \<in> set (litsI ''wikipedia.org'' # wordI ''wikipedia'' # citationPatterns).
     \<not> re_test r ex_long_answer"
proof
  fix r assume r: "r \<in> set (litsI ''wikipedia.org'' # wordI ''wikipedia'' # citationPatterns)"
  have tail: "\<forall>r \<in> set (litsI ''wikipedia.org'' # wordI ''wikipedia'' # citationPatterns).
     \<not> search r (Some CHR ''x'') '' You can claim it back.''"
    by code_simp
  from r have "re_test r (replicate 300 CHR ''x'' @ '' You can claim it back.'')
      = search r (Some CHR ''x'') '' You can claim it back.''"
    by (rule skip_filler)
  with tail [rule_format, OF r] show "\<not> re_test r ex_long_answer"
    unfolding ex_long_answer_def by (simp only: simp_thms)
qed

lemma in_front: "r \<in> set [a, b] \<Longrightarrow> r \<in> set (a # b # cs)"
  by auto

lemma ex_cited_tail:
  "\<forall>r \<in> set [litsI ''wikipedia.org'', wordI ''wikipedia''].
      \<not> search r (Some CHR ''x'') '' See the Housing Act 2004, s.213.''"
  by code_simp

lemma ex_cited_answer_clean:
  "\<forall>r \<in> set [litsI ''wikipedia.org'', wordI ''wikipedia'']. \<not> re_test r ex_cited_answer"
proof
  fix r assume r: "r \<in> set [litsI ''wikipedia.org'', wordI ''wikipedia'']"
  then have "r \<in> set (litsI ''wikipedia.org'' # wordI ''wikipedia'' # citationPatterns)"
    by (rule in_front)
  then have "re_test r (replicate 300 CHR ''x'' @ '' See the Housing Act 2004, s.213.'')
      = search r (Some CHR ''x'') '' See the Housing Act 2004, s.213.''"
    by (rule skip_filler)
  with ex_cited_tail [rule_format, OF r] show "\<not> re_test r ex_cited_answer"
    unfolding ex_cited_answer_def by (simp only: simp_thms)
qed

lemma ex_short_answer_clean:
  "\<forall>r \<in> set [litsI ''wikipedia.org'', wordI ''wikipedia'']. \<not> re_test r ''Yes, you can.''"
  by code_simp

lemma ex_wikipedia_answer_facts:
  "\<not> hasCitations ex_wikipedia_answer"
  "re_test (litsI ''wikipedia.org'') ex_wikipedia_answer"
  by code_simp+

lemma blocked_hit_none:
  "cp_blocked proc = [(src, [p1, p2])] \<Longrightarrow> \<forall>r \<in> set [r1, r2]. \<not> re_test r t
     \<Longrightarrow> p1 = re_test r1 \<Longrightarrow> p2 = re_test r2 \<Longrightarrow> blocked_hit proc t = None"
  by (simp add: blocked_hit_def)

lemma blocked_hit_first:
  "cp_blocked proc = (src, p1 # ps) # rest \<Longrightarrow> p1 t \<Longrightarrow> blocked_hit proc t = Some src"
  by (simp add: blocked_hit_def)

lemma no_pattern_no_citation:
  "\<forall>r \<in> set (a # b # citationPatterns). \<not> re_test r t \<Longrightarrow> \<not> hasCitations t"
  by (simp add: hasCitations_def list_ex_iff)

lemma compile_blocked_sources:
  "compile_blocked RegExp_i srcs = Some b \<Longrightarrow> map fst b = srcs"
  by (induction srcs arbitrary: b) (auto split: option.splits)

lemma blocked_sources_of_proc:
  assumes "createCitationProcessor RegExp_i mandate = Some proc"
    and "required (citations (requirements mandate))"
  shows "cp_required proc"
    and "map fst (cp_blocked proc) = blocked_sources (citations (requirements mandate))"
  using assms
  by (auto simp: createCitationProcessor_def Let_def compile_blocked_sources split: option.splits)

lemma find_list_ex: "list_ex P xs \<Longrightarrow> \<exists>e \<in> set xs. find P xs = Some e"
  by (induction xs) auto

lemma find_not_list_ex: "\<not> list_ex P xs \<Longrightarrow> find P xs = None"
  by (induction xs) auto

lemma blocked_hit_clean: "\<not> matches_blocked proc txt \<Longrightarrow> blocked_hit proc txt = None"
  by (simp add: blocked_hit_def matches_blocked_def find_not_list_ex)

lemma blocked_hit_source:
  assumes "matches_blocked proc txt"
  shows "\<exists>source \<in> set (map fst (cp_blocked proc)). blocked_hit proc txt = Some source"
proof -
  from assms obtain e where "e \<in> set (cp_blocked proc)"
    and "find (\<lambda>e. list_ex (\<lambda>p. p txt) (snd e)) (cp_blocked proc) = Some e"
    unfolding matches_blocked_def by (auto dest: find_list_ex)
  then have "fst e \<in> set (map fst (cp_blocked proc))" and "blocked_hit proc txt = Some (fst e)"
    by (simp_all add: blocked_hit_def)
  then show ?thesis by (rule bexI [rotated])
qed

text \<open>
  C6, as the code has it.  Citations are required.  If a pattern of a blocked source
  matches the last assistant message, the stage aborts whatever the length and the
  citations of the text: with retry and a reason that names one of the policy's blocked
  sources while \<open>retryCount < 2\<close>, without retry from \<open>retryCount = 2\<close> on.  If no such
  pattern matches: a text of at most 200 characters passes unchanged; a longer text that
  matches no citation pattern aborts with retry and the reason that the response lacks
  citations while \<open>retryCount < 2\<close>, and passes unchanged from \<open>retryCount = 2\<close> on; a
  longer text that contains \<open>Housing Act 2004, s.213\<close> passes unchanged.
\<close>

theorem citation_gate:
  assumes proc: "createCitationProcessor RegExp_i mandate = Some proc"
    and req: "required (citations (requirements mandate))"
    and last: "is_assistant m" "\<forall>x \<in> set post. \<not> is_assistant x"
  shows "(matches_blocked proc (text_of stringify m) \<longrightarrow>
            (\<exists>source \<in> set (blocked_sources (citations (requirements mandate))).
               citation_processOutputResult proc stringify retryCount (pre @ m # post)
                 = (if retryCount < 2 then Abort (blocked_source_message proc source) True
                    else Abort no_authoritative_message False)))
    \<and> (\<not> matches_blocked proc (text_of stringify m) \<longrightarrow>
         (length (text_of stringify m) \<le> 200 \<longrightarrow>
            citation_processOutputResult proc stringify retryCount (pre @ m # post)
              = Continue (pre @ m # post))
       \<and> (length (text_of stringify m) > 200 \<and> \<not> hasCitations (text_of stringify m) \<longrightarrow>
            citation_processOutputResult proc stringify retryCount (pre @ m # post)
              = (if retryCount < 2 then Abort lacks_citations_message True
                 else Continue (pre @ m # post)))
       \<and> (length (text_of stringify m) > 200
             \<and> (\<exists>a b. text_of stringify m = a @ ''Housing Act 2004, s.213'' @ b) \<longrightarrow>
            citation_processOutputResult proc stringify retryCount (pre @ m # post)
              = Continue (pre @ m # post)))"
proof -
  note p = blocked_sources_of_proc [OF proc req]
  have hit: "matches_blocked proc (text_of stringify m) \<longrightarrow>
      (\<exists>source \<in> set (blocked_sources (citations (requirements mandate))).
         citation_processOutputResult proc stringify retryCount (pre @ m # post)
           = (if retryCount < 2 then Abort (blocked_source_message proc source) True
              else Abort no_authoritative_message False))"
  proof
    assume "matches_blocked proc (text_of stringify m)"
    from blocked_hit_source [OF this] obtain source
      where src: "source \<in> set (blocked_sources (citations (requirements mandate)))"
        and hit: "blocked_hit proc (text_of stringify m) = Some source"
      unfolding p(2) by (elim bexE)
    have "citation_processOutputResult proc stringify retryCount (pre @ m # post)
        = (if retryCount < 2 then Abort (blocked_source_message proc source) True
           else Abort no_authoritative_message False)"
      using p(1) last hit
      by (simp add: citation_processOutputResult_def findLast_last Let_def
          blocked_source_message_def no_authoritative_message_def)
    then show "\<exists>source \<in> set (blocked_sources (citations (requirements mandate))).
        citation_processOutputResult proc stringify retryCount (pre @ m # post)
          = (if retryCount < 2 then Abort (blocked_source_message proc source) True
             else Abort no_authoritative_message False)"
      using src by (rule bexI)
  qed
  have clean: "\<not> matches_blocked proc (text_of stringify m) \<longrightarrow>
         (length (text_of stringify m) \<le> 200 \<longrightarrow>
            citation_processOutputResult proc stringify retryCount (pre @ m # post)
              = Continue (pre @ m # post))
       \<and> (length (text_of stringify m) > 200 \<and> \<not> hasCitations (text_of stringify m) \<longrightarrow>
            citation_processOutputResult proc stringify retryCount (pre @ m # post)
              = (if retryCount < 2 then Abort lacks_citations_message True
                 else Continue (pre @ m # post)))
       \<and> (length (text_of stringify m) > 200
             \<and> (\<exists>a b. text_of stringify m = a @ ''Housing Act 2004, s.213'' @ b) \<longrightarrow>
            citation_processOutputResult proc stringify retryCount (pre @ m # post)
              = Continue (pre @ m # post))"
  proof
    assume "\<not> matches_blocked proc (text_of stringify m)"
    then have none: "blocked_hit proc (text_of stringify m) = None"
      by (rule blocked_hit_clean)
    have res: "citation_processOutputResult proc stringify retryCount (pre @ m # post)
        = (if length (text_of stringify m) > 200 \<and> \<not> hasCitations (text_of stringify m)
              \<and> retryCount < 2
           then Abort lacks_citations_message True else Continue (pre @ m # post))"
      using p(1) last none by (simp add: citation_processOutputResult_def findLast_last Let_def)
    show "(length (text_of stringify m) \<le> 200 \<longrightarrow>
            citation_processOutputResult proc stringify retryCount (pre @ m # post)
              = Continue (pre @ m # post))
       \<and> (length (text_of stringify m) > 200 \<and> \<not> hasCitations (text_of stringify m) \<longrightarrow>
            citation_processOutputResult proc stringify retryCount (pre @ m # post)
              = (if retryCount < 2 then Abort lacks_citations_message True
                 else Continue (pre @ m # post)))
       \<and> (length (text_of stringify m) > 200
             \<and> (\<exists>a b. text_of stringify m = a @ ''Housing Act 2004, s.213'' @ b) \<longrightarrow>
            citation_processOutputResult proc stringify retryCount (pre @ m # post)
              = Continue (pre @ m # post))"
      unfolding res using housing_act_cited by auto
  qed
  from hit clean show ?thesis by (rule conjI)
qed

lemma ex_blocked_answer_hit: "re_test (wordI ''wikipedia'') ex_blocked_answer"
  by code_simp

lemma matches_blocked_second:
  "cp_blocked proc = [(src, [p1, p2])] \<Longrightarrow> p2 t \<Longrightarrow> matches_blocked proc t"
  by (simp add: matches_blocked_def)

lemma matches_blocked_none:
  "cp_blocked proc = [(src, [p1, p2])] \<Longrightarrow> \<forall>r \<in> set [r1, r2]. \<not> re_test r t
     \<Longrightarrow> p1 = re_test r1 \<Longrightarrow> p2 = re_test r2 \<Longrightarrow> \<not> matches_blocked proc t"
  by (simp add: matches_blocked_def)

theorem citation_gate_witness:
  "citation_processOutputResult (the (createCitationProcessor no_RegExp ex_mandate))
       no_stringify 0 (answer ''Yes, you can.'') = Continue (answer ''Yes, you can.'')
   \<and> citation_processOutputResult (the (createCitationProcessor no_RegExp ex_mandate))
       no_stringify 0 (answer ex_long_answer) = Abort lacks_citations_message True
   \<and> citation_processOutputResult (the (createCitationProcessor no_RegExp ex_mandate))
       no_stringify 2 (answer ex_long_answer) = Continue (answer ex_long_answer)
   \<and> citation_processOutputResult (the (createCitationProcessor no_RegExp ex_mandate))
       no_stringify 0 (answer ex_cited_answer) = Continue (answer ex_cited_answer)
   \<and> citation_processOutputResult (the (createCitationProcessor no_RegExp ex_mandate))
       no_stringify 1 (answer ex_blocked_answer)
     = Abort (blocked_source_message (the (createCitationProcessor no_RegExp ex_mandate))
                ''wikipedia'') True
   \<and> citation_processOutputResult (the (createCitationProcessor no_RegExp ex_mandate))
       no_stringify 2 (answer ex_blocked_answer) = Abort no_authoritative_message False"
proof -
  define proc where "proc = the (createCitationProcessor no_RegExp ex_mandate)"
  have proc: "createCitationProcessor no_RegExp ex_mandate = Some proc"
    by (simp only: proc_def ex_proc option.sel)
  have blocked: "cp_blocked proc
      = [(''wikipedia'', [re_test (litsI ''wikipedia.org''), re_test (wordI ''wikipedia'')])]"
    by (simp only: proc_def ex_proc option.sel CitationProcessor.simps)
  have req: "required (citations (requirements ex_mandate))" by (simp add: ex_mandate_def)
  have srcs: "blocked_sources (citations (requirements ex_mandate)) = [''wikipedia'']"
    by (simp add: ex_mandate_def)
  have G: "(length t \<le> 200 \<longrightarrow>
            citation_processOutputResult proc no_stringify rc (answer t) = Continue (answer t))
    \<and> (length t > 200 \<and> \<not> hasCitations t \<longrightarrow>
            citation_processOutputResult proc no_stringify rc (answer t)
              = (if rc < 2 then Abort lacks_citations_message True else Continue (answer t)))
    \<and> (length t > 200 \<and> (\<exists>a b. t = a @ ''Housing Act 2004, s.213'' @ b) \<longrightarrow>
            citation_processOutputResult proc no_stringify rc (answer t) = Continue (answer t))"
    if "\<not> matches_blocked proc t" for t rc
    using citation_gate [OF proc req, where m = "\<lparr>role = ''assistant'', content = JStr t\<rparr>"
        and post = "[]" and stringify = no_stringify and retryCount = rc
        and pre = "[\<lparr>role = ''user'', content = JStr ''What about my deposit?''\<rparr>]"] that
    by (simp add: is_assistant_def text_of_def answer_def)
  have B: "citation_processOutputResult proc no_stringify rc (answer t)
      = (if rc < 2 then Abort (blocked_source_message proc ''wikipedia'') True
         else Abort no_authoritative_message False)"
    if "matches_blocked proc t" for t rc
  proof -
    have "matches_blocked proc t \<longrightarrow>
        (\<exists>source \<in> set (blocked_sources (citations (requirements ex_mandate))).
           citation_processOutputResult proc no_stringify rc (answer t)
             = (if rc < 2 then Abort (blocked_source_message proc source) True
                else Abort no_authoritative_message False))"
      using citation_gate [OF proc req,
          where m = "\<lparr>role = ''assistant'', content = JStr t\<rparr>"
          and post = "[]" and stringify = no_stringify and retryCount = rc
          and pre = "[\<lparr>role = ''user'', content = JStr ''What about my deposit?''\<rparr>]",
          THEN conjunct1]
      by (simp add: is_assistant_def text_of_def answer_def)
    with that have "\<exists>source \<in> set [''wikipedia''].
           citation_processOutputResult proc no_stringify rc (answer t)
             = (if rc < 2 then Abort (blocked_source_message proc source) True
                else Abort no_authoritative_message False)"
      by (simp only: srcs)
    then show ?thesis by auto
  qed
  have short: "\<not> matches_blocked proc ''Yes, you can.''"
    by (rule matches_blocked_none [OF blocked ex_short_answer_clean refl refl])
  have "\<forall>r \<in> set [litsI ''wikipedia.org'', wordI ''wikipedia'']. \<not> re_test r ex_long_answer"
  proof
    fix r assume "r \<in> set [litsI ''wikipedia.org'', wordI ''wikipedia'']"
    then have "r \<in> set (litsI ''wikipedia.org'' # wordI ''wikipedia'' # citationPatterns)"
      by (rule in_front)
    then show "\<not> re_test r ex_long_answer"
      by (rule ex_long_answer_patterns [rule_format])
  qed
  then have long: "\<not> matches_blocked proc ex_long_answer"
    by (rule matches_blocked_none [OF blocked _ refl refl])
  have uncited: "\<not> hasCitations ex_long_answer"
    by (rule no_pattern_no_citation [OF ex_long_answer_patterns])
  have cited: "\<not> matches_blocked proc ex_cited_answer"
    by (rule matches_blocked_none [OF blocked ex_cited_answer_clean refl refl])
  have named: "matches_blocked proc ex_blocked_answer"
    by (rule matches_blocked_second [OF blocked ex_blocked_answer_hit])
  have len: "length ex_cited_answer > 200" by (simp add: ex_cited_answer_def)
  have "ex_cited_answer
      = (replicate 300 CHR ''x'' @ '' See the '') @ ''Housing Act 2004, s.213'' @ ''.''"
    by (simp add: ex_cited_answer_def)
  then have inside: "\<exists>a b. ex_cited_answer = a @ ''Housing Act 2004, s.213'' @ b"
    by (intro exI)
  have 1: "citation_processOutputResult proc no_stringify 0 (answer ''Yes, you can.'')
      = Continue (answer ''Yes, you can.'')"
    using G [OF short, of 0] by simp
  have 2: "citation_processOutputResult proc no_stringify 0 (answer ex_long_answer)
      = Abort lacks_citations_message True"
    using G [OF long, of 0] uncited ex_long_answer_length by simp
  have 3: "citation_processOutputResult proc no_stringify 2 (answer ex_long_answer)
      = Continue (answer ex_long_answer)"
    using G [OF long, of 2] uncited ex_long_answer_length by simp
  have 4: "citation_processOutputResult proc no_stringify 0 (answer ex_cited_answer)
      = Continue (answer ex_cited_answer)"
    by (rule mp [OF conjunct2 [OF conjunct2 [OF G [OF cited, of 0]]] conjI [OF len inside]])
  have 5: "citation_processOutputResult proc no_stringify 1 (answer ex_blocked_answer)
      = Abort (blocked_source_message proc ''wikipedia'') True"
    using B [OF named, of 1] by simp
  have 6: "citation_processOutputResult proc no_stringify 2 (answer ex_blocked_answer)
      = Abort no_authoritative_message False"
    using B [OF named, of 2] by simp
  show ?thesis unfolding proc_def [symmetric] by (intro conjI 1 2 3 4 5 6)
qed

text \<open>
  C6, as the claim has it, fails: citations are required, the answer has at most 200
  characters and matches no citation pattern, but it names a blocked source, and the
  stage aborts.
\<close>

theorem citation_short_counterexample:
  "required (citations (requirements ex_mandate))
   \<and> length ex_wikipedia_answer \<le> 200
   \<and> \<not> hasCitations ex_wikipedia_answer
   \<and> citation_processOutputResult (the (createCitationProcessor no_RegExp ex_mandate))
         no_stringify 0 (answer ex_wikipedia_answer)
       = Abort (''Response references \"wikipedia\" which is a blocked source. ''
                  @ ''Use authoritative sources only: uk_primary_legislation'') True"
proof -
  define proc where "proc = the (createCitationProcessor no_RegExp ex_mandate)"
  have fields: "cp_required proc"
    "cp_blocked proc
      = [(''wikipedia'', [re_test (litsI ''wikipedia.org''), re_test (wordI ''wikipedia'')])]"
    "cp_allowed_sources proc = [''uk_primary_legislation'']"
    by (simp_all only: proc_def ex_proc option.sel CitationProcessor.simps)
  note facts = ex_wikipedia_answer_facts
  have req: "required (citations (requirements ex_mandate))" by (simp add: ex_mandate_def)
  have hit: "blocked_hit proc ex_wikipedia_answer = Some ''wikipedia''"
    by (rule blocked_hit_first [OF fields(2) facts(2)])
  have res: "citation_processOutputResult proc no_stringify 0 (answer ex_wikipedia_answer)
       = Abort (''Response references \"wikipedia\" which is a blocked source. ''
                  @ ''Use authoritative sources only: uk_primary_legislation'') True"
    by (simp add: citation_processOutputResult_def fields hit answer_def findLast_def
        is_assistant_def text_of_def)
  have len: "length ex_wikipedia_answer \<le> 200" by (simp add: ex_wikipedia_answer_def)
  show ?thesis unfolding proc_def [symmetric] by (intro conjI req len facts(1) res)
qed

subsection \<open>The Data Access stage\<close>

lemma first_some_None: "\<forall>x \<in> set xs. f x = None \<Longrightarrow> first_some f xs = None"
  by (induction xs) auto

lemma first_some_skip:
  "\<forall>x \<in> set xs. f x = None \<Longrightarrow> first_some f (xs @ ys) = first_some f ys"
  by (induction xs) auto

lemma first_some_hit:
  "x \<in> set xs \<Longrightarrow> f x \<noteq> None \<Longrightarrow> \<exists>x' \<in> set xs. \<exists>y. f x' = Some y \<and> first_some f xs = Some y"
  by (induction xs) (auto split: option.splits)

lemma bad_extension_not_allowed: "bad_extension exts v = Some ext \<Longrightarrow> ext \<notin> set exts"
  by (auto simp: bad_extension_def split: option.splits if_splits)

lemma data_access_call_bad:
  assumes "allowedExtensions mandate \<noteq> []" and "args tc = Some a"
    and "v \<in> set (extractStrings a)" and "bad_extension (allowedExtensions mandate) v \<noteq> None"
  shows "\<exists>ext. ext \<notin> set (allowedExtensions mandate)
     \<and> data_access_call mandate stringify tc
       = Some (''File type \"'' @ ext @ ''\" is not permitted. Allowed types: ''
                 @ join '', '' (allowedExtensions mandate), True)"
proof -
  from first_some_hit [of v "extractStrings a" "bad_extension (allowedExtensions mandate)",
      OF assms(3,4)] obtain v' ext
    where "bad_extension (allowedExtensions mandate) v' = Some ext"
      and fs: "first_some (bad_extension (allowedExtensions mandate)) (extractStrings a) = Some ext"
    by blast
  then have "ext \<notin> set (allowedExtensions mandate)" by (simp add: bad_extension_not_allowed)
  moreover have "data_access_call mandate stringify tc
       = Some (''File type \"'' @ ext @ ''\" is not permitted. Allowed types: ''
                 @ join '', '' (allowedExtensions mandate), True)"
    using assms(1,2) fs by (simp add: data_access_call_def Let_def)
  ultimately show ?thesis by (intro exI conjI)
qed

lemma data_access_call_pass:
  assumes "anyWriteAllowed mandate"
    and "allowedExtensions mandate = [] \<or>
         (\<forall>a. args tc = Some a \<longrightarrow>
            (\<forall>v \<in> set (extractStrings a). bad_extension (allowedExtensions mandate) v = None))"
  shows "data_access_call mandate stringify tc = None"
proof (cases "allowedExtensions mandate = []")
  case True
  with assms(1) show ?thesis by (simp add: data_access_call_def Let_def)
next
  case False
  with assms(2) have "first_some (bad_extension (allowedExtensions mandate))
      (case args tc of None \<Rightarrow> [] | Some a \<Rightarrow> extractStrings a) = None"
    by (cases "args tc") (simp_all add: first_some_None)
  with assms(1) show ?thesis by (simp add: data_access_call_def Let_def)
qed

lemma ex_files_facts:
  "allowedExtensions ex_files_mandate = [''.pdf'', ''.docx'']"
  "anyWriteAllowed ex_files_mandate"
  "allowedExtensions ex_open_mandate = []"
  "anyWriteAllowed ex_open_mandate"
  by code_simp+

lemma ex_extension_facts:
  "checked_extension ''malware.EXE'' = Some ''.exe''"
  "bad_extension [''.pdf'', ''.docx''] ''malware.EXE'' = Some ''.exe''"
  "bad_extension [''.pdf'', ''.docx''] ''contract.pdf'' = None"
  "checked_extension ''v1.2/readme'' = None"
  by code_simp+


lemma ex_pdf_call_passes:
  "data_access_call ex_files_mandate no_stringify (ex_file_call ''contract.pdf'') = None"
  by code_simp

lemma ex_file_call_strings:
  "args (ex_file_call f) = Some (JObj [(''options'', JArr [JNum 1, JObj [(''file'', JStr f)]])])"
  "extractStrings (JObj [(''options'', JArr [JNum 1, JObj [(''file'', JStr f)]])]) = [f]"
  by (simp_all add: ex_file_call_def)

lemma data_access_call_retry:
  "data_access_call mandate stringify tc = Some y \<Longrightarrow> snd y = True"
  by (auto simp: data_access_call_def Let_def split: option.splits if_splits)

lemma data_access_call_write_only:
  assumes "allowedExtensions mandate = [] \<or>
         (\<forall>a. args tc = Some a \<longrightarrow>
            (\<forall>v \<in> set (extractStrings a). bad_extension (allowedExtensions mandate) v = None))"
  shows "data_access_call mandate stringify tc
     = (if \<not> anyWriteAllowed mandate \<and> write_operation stringify tc
        then Some (write_denied_message, True) else None)"
proof (cases "allowedExtensions mandate = []")
  case True
  then show ?thesis by (simp add: data_access_call_def Let_def write_operation_def)
next
  case False
  with assms have "first_some (bad_extension (allowedExtensions mandate))
      (case args tc of None \<Rightarrow> [] | Some a \<Rightarrow> extractStrings a) = None"
    by (cases "args tc") (simp_all add: first_some_None)
  then show ?thesis by (simp add: data_access_call_def Let_def write_operation_def)
qed

lemma first_some_const:
  "\<forall>x \<in> set xs. f x = (if P x then Some y else None) \<Longrightarrow>
     first_some f xs = (if list_ex P xs then Some y else None)"
  by (induction xs) auto

text \<open>
  C8, as the code has it.  When the union of the rules' file types is not empty, a batch
  with a call that has, anywhere in its arguments, a string that looks like a file name
  and whose extension is not in the union is aborted with retry; if the calls before
  that one pass, the reason names an extension that is not allowed.  When the union is
  empty, or no string of any call has such an extension, the stage does not abort for a
  file type: its result is that of the write check alone, an abort with retry and the
  write-denied reason if no rule grants writing and some call is taken for a write
  operation, and the messages otherwise.
\<close>

theorem data_access_file_types:
  "(allowedExtensions mandate \<noteq> []
      \<and> tc \<in> set calls \<and> args tc = Some a \<and> v \<in> set (extractStrings a)
      \<and> bad_extension (allowedExtensions mandate) v \<noteq> None
    \<longrightarrow> (\<exists>reason.
          data_access_processOutputStep mandate stringify messages (Some calls)
            = Abort reason True))
   \<and> (allowedExtensions mandate \<noteq> []
      \<and> (\<forall>c \<in> set before. data_access_call mandate stringify c = None)
      \<and> args tc = Some a \<and> v \<in> set (extractStrings a)
      \<and> bad_extension (allowedExtensions mandate) v \<noteq> None
    \<longrightarrow> (\<exists>ext. ext \<notin> set (allowedExtensions mandate)
          \<and> data_access_processOutputStep mandate stringify messages (Some (before @ tc # after))
            = Abort (''File type \"'' @ ext @ ''\" is not permitted. Allowed types: ''
                       @ join '', '' (allowedExtensions mandate)) True))
   \<and> (allowedExtensions mandate = []
      \<or> (\<forall>c \<in> set calls. \<forall>a. args c = Some a \<longrightarrow>
            (\<forall>v \<in> set (extractStrings a). bad_extension (allowedExtensions mandate) v = None))
    \<longrightarrow> data_access_processOutputStep mandate stringify messages (Some calls)
          = (if \<not> anyWriteAllowed mandate \<and> list_ex (write_operation stringify) calls
             then Abort write_denied_message True else Continue messages))"
proof -
  have A: "allowedExtensions mandate \<noteq> []
      \<and> tc \<in> set calls \<and> args tc = Some a \<and> v \<in> set (extractStrings a)
      \<and> bad_extension (allowedExtensions mandate) v \<noteq> None
    \<longrightarrow> (\<exists>reason.
          data_access_processOutputStep mandate stringify messages (Some calls)
            = Abort reason True)"
  proof
    assume h: "allowedExtensions mandate \<noteq> []
      \<and> tc \<in> set calls \<and> args tc = Some a \<and> v \<in> set (extractStrings a)
      \<and> bad_extension (allowedExtensions mandate) v \<noteq> None"
    then have "data_access_call mandate stringify tc \<noteq> None"
      using data_access_call_bad [of mandate tc a v stringify] by auto
    with h obtain y where y: "first_some (data_access_call mandate stringify) calls = Some y"
      and "\<exists>c \<in> set calls. data_access_call mandate stringify c = Some y"
      using first_some_hit [of tc calls "data_access_call mandate stringify"] by auto
    then have "snd y = True" by (auto dest: data_access_call_retry)
    with y have "data_access_processOutputStep mandate stringify messages (Some calls)
        = Abort (fst y) True"
      by (simp add: data_access_processOutputStep_def)
    then show "\<exists>reason.
        data_access_processOutputStep mandate stringify messages (Some calls) = Abort reason True"
      by (rule exI)
  qed
  have B: "allowedExtensions mandate \<noteq> []
      \<and> (\<forall>c \<in> set before. data_access_call mandate stringify c = None)
      \<and> args tc = Some a \<and> v \<in> set (extractStrings a)
      \<and> bad_extension (allowedExtensions mandate) v \<noteq> None
    \<longrightarrow> (\<exists>ext. ext \<notin> set (allowedExtensions mandate)
          \<and> data_access_processOutputStep mandate stringify messages (Some (before @ tc # after))
            = Abort (''File type \"'' @ ext @ ''\" is not permitted. Allowed types: ''
                       @ join '', '' (allowedExtensions mandate)) True)"
  proof
    assume h: "allowedExtensions mandate \<noteq> []
      \<and> (\<forall>c \<in> set before. data_access_call mandate stringify c = None)
      \<and> args tc = Some a \<and> v \<in> set (extractStrings a)
      \<and> bad_extension (allowedExtensions mandate) v \<noteq> None"
    then obtain ext where ext: "ext \<notin> set (allowedExtensions mandate)"
      and call: "data_access_call mandate stringify tc
         = Some (''File type \"'' @ ext @ ''\" is not permitted. Allowed types: ''
                   @ join '', '' (allowedExtensions mandate), True)"
      using data_access_call_bad [of mandate tc a v stringify] by blast
    from h have "first_some (data_access_call mandate stringify) (before @ tc # after)
        = first_some (data_access_call mandate stringify) (tc # after)"
      by (simp add: first_some_skip)
    with call have "data_access_processOutputStep mandate stringify messages (Some (before @ tc # after))
        = Abort (''File type \"'' @ ext @ ''\" is not permitted. Allowed types: ''
                   @ join '', '' (allowedExtensions mandate)) True"
      by (simp add: data_access_processOutputStep_def)
    with ext show "\<exists>ext. ext \<notin> set (allowedExtensions mandate)
          \<and> data_access_processOutputStep mandate stringify messages (Some (before @ tc # after))
            = Abort (''File type \"'' @ ext @ ''\" is not permitted. Allowed types: ''
                       @ join '', '' (allowedExtensions mandate)) True"
      by (intro exI conjI)
  qed
  have C: "allowedExtensions mandate = []
      \<or> (\<forall>c \<in> set calls. \<forall>a. args c = Some a \<longrightarrow>
            (\<forall>v \<in> set (extractStrings a). bad_extension (allowedExtensions mandate) v = None))
    \<longrightarrow> data_access_processOutputStep mandate stringify messages (Some calls)
          = (if \<not> anyWriteAllowed mandate \<and> list_ex (write_operation stringify) calls
             then Abort write_denied_message True else Continue messages)"
  proof
    assume h: "allowedExtensions mandate = []
      \<or> (\<forall>c \<in> set calls. \<forall>a. args c = Some a \<longrightarrow>
            (\<forall>v \<in> set (extractStrings a). bad_extension (allowedExtensions mandate) v = None))"
    have "\<forall>c \<in> set calls. data_access_call mandate stringify c
        = (if \<not> anyWriteAllowed mandate \<and> write_operation stringify c
           then Some (write_denied_message, True) else None)"
    proof
      fix c assume "c \<in> set calls"
      with h have "allowedExtensions mandate = [] \<or>
         (\<forall>a. args c = Some a \<longrightarrow>
            (\<forall>v \<in> set (extractStrings a). bad_extension (allowedExtensions mandate) v = None))"
        by auto
      then show "data_access_call mandate stringify c
        = (if \<not> anyWriteAllowed mandate \<and> write_operation stringify c
           then Some (write_denied_message, True) else None)"
        by (rule data_access_call_write_only)
    qed
    from first_some_const [OF this]
    show "data_access_processOutputStep mandate stringify messages (Some calls)
          = (if \<not> anyWriteAllowed mandate \<and> list_ex (write_operation stringify) calls
             then Abort write_denied_message True else Continue messages)"
      by (simp add: data_access_processOutputStep_def list_ex_iff)
  qed
  from A B C show ?thesis by (intro conjI)
qed

lemma ex_bare_facts:
  "allowedExtensions ex_bare_mandate = []"
  "\<not> anyWriteAllowed ex_bare_mandate"
  "\<not> write_operation ex_stringify (ex_plain_call ''doc-reader'' ''malware.exe'')"
  "write_operation ex_stringify (ex_plain_call ''file-write'' ''notes.txt'')"
  by code_simp+

theorem data_access_file_types_witness:
  "(\<exists>reason. data_access_processOutputStep ex_files_mandate no_stringify []
            (Some [ex_file_call ''malware.EXE'', ex_file_call ''contract.pdf''])
          = Abort reason True)
   \<and> (\<exists>ext. ext \<notin> set (allowedExtensions ex_files_mandate)
      \<and> data_access_processOutputStep ex_files_mandate no_stringify []
            (Some [ex_file_call ''contract.pdf'', ex_file_call ''malware.EXE''])
          = Abort (''File type \"'' @ ext @ ''\" is not permitted. Allowed types: ''
                     @ join '', '' (allowedExtensions ex_files_mandate)) True)
   \<and> data_access_processOutputStep ex_files_mandate no_stringify []
         (Some [ex_file_call ''contract.pdf'']) = Continue []
   \<and> data_access_processOutputStep ex_bare_mandate ex_stringify []
         (Some [ex_plain_call ''doc-reader'' ''malware.exe'']) = Continue []
   \<and> data_access_processOutputStep ex_bare_mandate ex_stringify []
         (Some [ex_plain_call ''file-write'' ''notes.txt'']) = Abort write_denied_message True"
proof (intro conjI)
  let ?a = "JObj [(''options'', JArr [JNum 1, JObj [(''file'', JStr ''malware.EXE'')]])]"
  have h: "allowedExtensions ex_files_mandate \<noteq> []
      \<and> ex_file_call ''malware.EXE'' \<in> set [ex_file_call ''malware.EXE'', ex_file_call ''contract.pdf'']
      \<and> args (ex_file_call ''malware.EXE'') = Some ?a
      \<and> ''malware.EXE'' \<in> set (extractStrings ?a)
      \<and> bad_extension (allowedExtensions ex_files_mandate) ''malware.EXE'' \<noteq> None"
    by (simp add: ex_files_facts ex_extension_facts ex_file_call_strings)
  from data_access_file_types [where mandate = ex_files_mandate and stringify = no_stringify
      and calls = "[ex_file_call ''malware.EXE'', ex_file_call ''contract.pdf'']"
      and tc = "ex_file_call ''malware.EXE''"
      and a = ?a and v = "''malware.EXE''" and messages = "[]",
      THEN conjunct1, rule_format, OF h]
  show "\<exists>reason. data_access_processOutputStep ex_files_mandate no_stringify []
            (Some [ex_file_call ''malware.EXE'', ex_file_call ''contract.pdf''])
          = Abort reason True" .
next
  let ?a = "JObj [(''options'', JArr [JNum 1, JObj [(''file'', JStr ''malware.EXE'')]])]"
  have h: "allowedExtensions ex_files_mandate \<noteq> []
      \<and> (\<forall>c \<in> set [ex_file_call ''contract.pdf''].
            data_access_call ex_files_mandate no_stringify c = None)
      \<and> args (ex_file_call ''malware.EXE'') = Some ?a
      \<and> ''malware.EXE'' \<in> set (extractStrings ?a)
      \<and> bad_extension (allowedExtensions ex_files_mandate) ''malware.EXE'' \<noteq> None"
    by (simp add: ex_files_facts ex_extension_facts ex_pdf_call_passes ex_file_call_strings)
  from data_access_file_types [where mandate = ex_files_mandate and stringify = no_stringify
      and before = "[ex_file_call ''contract.pdf'']" and tc = "ex_file_call ''malware.EXE''"
      and a = ?a and v = "''malware.EXE''" and after = "[]" and messages = "[]",
      THEN conjunct2, THEN conjunct1, rule_format, OF h]
  show "\<exists>ext. ext \<notin> set (allowedExtensions ex_files_mandate)
      \<and> data_access_processOutputStep ex_files_mandate no_stringify []
            (Some [ex_file_call ''contract.pdf'', ex_file_call ''malware.EXE''])
          = Abort (''File type \"'' @ ext @ ''\" is not permitted. Allowed types: ''
                     @ join '', '' (allowedExtensions ex_files_mandate)) True"
    by (simp only: append_Cons append_Nil)
next
  have h: "allowedExtensions ex_files_mandate = []
      \<or> (\<forall>c \<in> set [ex_file_call ''contract.pdf'']. \<forall>a. args c = Some a \<longrightarrow>
            (\<forall>v \<in> set (extractStrings a).
               bad_extension (allowedExtensions ex_files_mandate) v = None))"
    by (simp add: ex_files_facts ex_extension_facts ex_file_call_strings)
  from data_access_file_types [where mandate = ex_files_mandate and stringify = no_stringify
      and calls = "[ex_file_call ''contract.pdf'']" and messages = "[]",
      THEN conjunct2, THEN conjunct2, rule_format, OF h]
  show "data_access_processOutputStep ex_files_mandate no_stringify []
         (Some [ex_file_call ''contract.pdf'']) = Continue []"
    by (simp only: ex_files_facts simp_thms if_False)
next
  have h: "allowedExtensions ex_bare_mandate = []
      \<or> (\<forall>c \<in> set [ex_plain_call ''doc-reader'' ''malware.exe'']. \<forall>a. args c = Some a \<longrightarrow>
            (\<forall>v \<in> set (extractStrings a).
               bad_extension (allowedExtensions ex_bare_mandate) v = None))"
    by (rule disjI1) (rule ex_bare_facts)
  from data_access_file_types [where mandate = ex_bare_mandate and stringify = ex_stringify
      and calls = "[ex_plain_call ''doc-reader'' ''malware.exe'']" and messages = "[]",
      THEN conjunct2, THEN conjunct2, rule_format, OF h]
  show "data_access_processOutputStep ex_bare_mandate ex_stringify []
         (Some [ex_plain_call ''doc-reader'' ''malware.exe'']) = Continue []"
    by (simp only: ex_bare_facts list_ex_Cons_iff list_ex_Nil_iff simp_thms if_False)
next
  have h: "allowedExtensions ex_bare_mandate = []
      \<or> (\<forall>c \<in> set [ex_plain_call ''file-write'' ''notes.txt'']. \<forall>a. args c = Some a \<longrightarrow>
            (\<forall>v \<in> set (extractStrings a).
               bad_extension (allowedExtensions ex_bare_mandate) v = None))"
    by (rule disjI1) (rule ex_bare_facts)
  from data_access_file_types [where mandate = ex_bare_mandate and stringify = ex_stringify
      and calls = "[ex_plain_call ''file-write'' ''notes.txt'']" and messages = "[]",
      THEN conjunct2, THEN conjunct2, rule_format, OF h]
  show "data_access_processOutputStep ex_bare_mandate ex_stringify []
         (Some [ex_plain_call ''file-write'' ''notes.txt'']) = Abort write_denied_message True"
    by (simp only: ex_bare_facts list_ex_Cons_iff list_ex_Nil_iff simp_thms if_True)
qed

text \<open>
  C8, as the claim has it, fails: the union of file types is empty, the argument
  \<open>malware.exe\<close> is a string of the call and looks like a file name with the extension
  \<open>.exe\<close>, and the stage returns the messages.
\<close>

theorem data_access_empty_union_counterexample:
  "allowedExtensions ex_open_mandate = []
   \<and> extractStrings (JObj [(''options'', JArr [JNum 1, JObj [(''file'', JStr ''malware.exe'')]])])
       = [''malware.exe'']
   \<and> checked_extension ''malware.exe'' = Some ''.exe''
   \<and> data_access_processOutputStep ex_open_mandate no_stringify []
         (Some [ex_file_call ''malware.exe'']) = Continue []"
  by code_simp


end
